theory Spec2Isabelle
  imports Complex_Main
begin

section \<open>ARDR: the staged reasoning pipeline\<close>

text \<open>
  A shallow embedding of the ARDR orchestrator (\<^verbatim>\<open>ARDR.ts\<close>, \<^verbatim>\<open>ARDR_stages.ts\<close>,
  \<^verbatim>\<open>ARDR_utils.ts\<close>, \<^verbatim>\<open>ARDR_types.ts\<close>, \<^verbatim>\<open>ARDR_models.ts\<close>).

  Conventions of the model.
  \<^item> A JavaScript number that comes out of a JSON payload or out of \<open>+\<close>, \<open>-\<close>,
    \<open>Math.min\<close> on such numbers is an exact rational (\<open>rat\<close>); the rounding of IEEE
    doubles is not modelled. The one place where the code can produce \<open>NaN\<close> (a
    division by the length of an array) has the type \<open>jsnum\<close>, which adds \<open>NaN\<close>.
  \<^item> Prompt texts are configuration and are left out: a request to the inference
    provider is recorded with its model identifier, token ceiling and streaming flag.
  \<^item> The provider and the wall clock are the environment: the reaction of the provider
    to the \<open>n\<close>-th request of a run, and the reading of \<open>Date.now()\<close> when the entry at
    position \<open>k\<close> of the scratchpad is pushed, are arbitrary functions.
  \<^item> \<open>JSON.parse\<close> is a built-in of the runtime and is a parameter. The fields the
    pipeline reads from a parsed object are collected in the record \<open>payload\<close>, each
    optional (\<open>None\<close>: the property is \<open>undefined\<close> or \<open>null\<close>) and each at the type the
    interfaces of \<^verbatim>\<open>ARDR_types.ts\<close> declare for it; a response whose JSON carries
    another kind of value in one of these fields is outside the model.
  \<^item> Concurrent calls of one stage (\<open>Promise.all\<close>) are issued in array order, which is
    the order the model requests them in; their continuations are run in that order too.
\<close>

subsection \<open>Numbers and the \<open>||\<close> defaults\<close>

datatype jsnum = NaN | Num rat

definition js_add :: "jsnum \<Rightarrow> jsnum \<Rightarrow> jsnum" where
  "js_add a b = (case a of NaN \<Rightarrow> NaN | Num x \<Rightarrow> (case b of NaN \<Rightarrow> NaN | Num y \<Rightarrow> Num (x + y)))"

definition js_sub :: "jsnum \<Rightarrow> jsnum \<Rightarrow> jsnum" where
  "js_sub a b = (case a of NaN \<Rightarrow> NaN | Num x \<Rightarrow> (case b of NaN \<Rightarrow> NaN | Num y \<Rightarrow> Num (x - y)))"

definition js_half :: "jsnum \<Rightarrow> jsnum" where
  "js_half a = (case a of NaN \<Rightarrow> NaN | Num x \<Rightarrow> Num (x / 2))"

text \<open>Every comparison with \<open>NaN\<close> is false.\<close>

definition js_less :: "jsnum \<Rightarrow> rat \<Rightarrow> bool" where
  "js_less a y = (case a of NaN \<Rightarrow> False | Num x \<Rightarrow> x < y)"

definition in_unit_interval :: "jsnum \<Rightarrow> bool" where
  "in_unit_interval a = (case a of NaN \<Rightarrow> False | Num x \<Rightarrow> 0 \<le> x \<and> x \<le> 1)"

text \<open>
  \<open>v || d\<close>: the default \<open>d\<close> replaces every falsy \<open>v\<close>. A missing property is falsy, and
  so are the number \<open>0\<close> and the empty string; an array or an object never is.
\<close>

definition or_num :: "rat option \<Rightarrow> rat \<Rightarrow> rat" where
  "or_num v d = (case v of None \<Rightarrow> d | Some x \<Rightarrow> if x = 0 then d else x)"

definition or_str :: "string option \<Rightarrow> string \<Rightarrow> string" where
  "or_str v d = (case v of None \<Rightarrow> d | Some s \<Rightarrow> if s = [] then d else s)"

definition or_obj :: "'a option \<Rightarrow> 'a \<Rightarrow> 'a" where
  "or_obj v d = (case v of None \<Rightarrow> d | Some x \<Rightarrow> x)"

subsection \<open>Data model (\<^verbatim>\<open>ARDR_types.ts\<close>, \<^verbatim>\<open>ARDR_models.ts\<close>)\<close>

datatype NexusTier = TierLow | TierHigh | TierMax

definition MODELS_profiler :: string where "MODELS_profiler = ''meta-llama/llama-3.3-70b-instruct:free''"
definition MODELS_cheap :: string where "MODELS_cheap = ''google/gemini-2.0-flash-001''"
definition MODELS_logic :: string where "MODELS_logic = ''google/gemini-2.0-flash-001''"
definition MODELS_pattern :: string where "MODELS_pattern = ''google/gemini-2.0-flash-001''"
definition MODELS_world :: string where "MODELS_world = ''openai/gpt-4.1-mini''"
definition MODELS_code :: string where "MODELS_code = ''anthropic/claude-sonnet-4''"
definition MODELS_adversarial :: string where "MODELS_adversarial = ''google/gemini-2.0-flash-001''"
definition MODELS_chiefLow :: string where "MODELS_chiefLow = ''meta-llama/llama-3.3-70b-instruct:free''"
definition MODELS_chiefHigh :: string where "MODELS_chiefHigh = ''deepseek/deepseek-chat-v3-0324''"
definition MODELS_chiefMax :: string where "MODELS_chiefMax = ''anthropic/claude-opus-4''"

record ReasoningBudget =
  taskType :: string
  complexity :: string
  riskScore :: rat
  allowedDepth :: rat
  branches :: "string list"
  chiefModel :: string

record TriStructurePack =
  symbolic :: string
  invariants :: string
  formal :: string

record BranchOutput =
  branchName :: string
  hypotheses :: "string list"
  artifacts :: "string list"
  notes_text :: string
  contradictions :: "string list"
  confidence :: rat

datatype EntryType = T_hypothesis | T_artifact | T_note | T_contradiction

record ScratchpadEntry =
  branch :: string
  timestamp :: int
  content :: string
  entryType :: EntryType

record Scratchpad =
  entries :: "ScratchpadEntry list"
  sharedArtifacts :: "string \<rightharpoonup> string"

text \<open>
  The field \<open>contradictions\<close> of a \<open>VerificationResult\<close> is named after the variable
  the code fills it from, \<open>allContradictions\<close>.
\<close>

record VerificationResult =
  branchScores :: "string \<rightharpoonup> rat"
  counterexamples :: "string list"
  allContradictions :: "string list"
  provenInvariants :: "string list"
  uncertaintyScore :: jsnum
  weakPoints :: "string list"

record BranchConfig =
  model :: string
  systemPrompt :: string

text \<open>The properties the stages read from a parsed response.\<close>

record payload =
  p_taskType :: "string option"
  p_complexity :: "string option"
  p_riskScore :: "rat option"
  p_allowedDepth :: "rat option"
  p_requiredBranches :: "string list option"
  p_hypotheses :: "string list option"
  p_artifacts :: "string list option"
  p_notes :: "string option"
  p_contradictions :: "string list option"
  p_confidence :: "rat option"
  p_counterexamples :: "string list option"
  p_branch_scores :: "(string \<times> rat) list option"
  p_proven_invariants :: "string list option"
  p_weak_points :: "string list option"
  p_uncertainty :: "rat option"
  p_instructions :: "(string \<times> string) list option"

definition empty_payload :: payload where
  "empty_payload = \<lparr> p_taskType = None, p_complexity = None, p_riskScore = None,
     p_allowedDepth = None, p_requiredBranches = None, p_hypotheses = None,
     p_artifacts = None, p_notes = None, p_contradictions = None, p_confidence = None,
     p_counterexamples = None, p_branch_scores = None, p_proven_invariants = None,
     p_weak_points = None, p_uncertainty = None, p_instructions = None \<rparr>"

subsection \<open>Response Interpreter (\<^verbatim>\<open>parseJsonFromResponse\<close>)\<close>

text \<open>
  \<^verbatim>\<open>response.match(/\{[\s\S]*\}/)\<close>: the leftmost match starts at the first \<open>{\<close> that
  has a \<open>}\<close> after it, and the greedy \<open>[\s\S]*\<close> carries it to the last \<open>}\<close> of the text.
  If the first \<open>{\<close> has no \<open>}\<close> after it, no later one has.
\<close>

definition upto_last_close :: "string \<Rightarrow> string" where
  "upto_last_close s = rev (dropWhile (\<lambda>c. c \<noteq> CHR ''}'') (rev s))"

definition match_braces :: "string \<Rightarrow> string option" where
  "match_braces response =
     (case dropWhile (\<lambda>c. c \<noteq> CHR ''{'') response of
        [] \<Rightarrow> None
      | c # rest \<Rightarrow> if CHR ''}'' \<in> set rest then Some (c # upto_last_close rest) else None)"

text \<open>
  \<open>JSON_parse\<close> returns \<open>None\<close> where \<open>JSON.parse\<close> throws; the \<open>catch\<close> turns that into
  \<open>null\<close>, which is \<open>None\<close> again.
\<close>

definition parseJsonFromResponse :: "(string \<Rightarrow> 'a option) \<Rightarrow> string \<Rightarrow> 'a option" where
  "parseJsonFromResponse JSON_parse response =
     (case match_braces response of
        None \<Rightarrow> None
      | Some jsonMatch \<Rightarrow> JSON_parse jsonMatch)"

subsection \<open>Inference Gateway (\<^verbatim>\<open>ARDR_utils.ts\<close>)\<close>

text \<open>
  What \<open>openai.chat.completions.create\<close> does with a request: it resolves with a
  completion whose first choice has a content (or has none), or it throws an error with
  a message. With \<open>stream: true\<close> it yields chunks, each with a content or none, or the
  creation or the iteration throws.
\<close>

datatype completion = Completion "string option" | Throws string

datatype streamed = Chunks "string option list" | StreamThrows string

record OpenAI =
  create :: "nat \<Rightarrow> completion"
  create_stream :: "nat \<Rightarrow> streamed"

record request =
  req_model :: string
  max_tokens :: nat
  stream :: bool

text \<open>The observable effects of a run: the requests sent and the sections logged.\<close>

record io =
  requests :: "request list"
  sections :: "string list"

definition io_start :: io where
  "io_start = \<lparr> requests = [], sections = [] \<rparr>"

definition logSection :: "string \<Rightarrow> io \<Rightarrow> io" where
  "logSection title w = w\<lparr> sections := sections w @ [title] \<rparr>"

datatype error = NotInitialized

definition getOpenAI :: "OpenAI option \<Rightarrow> error + OpenAI" where
  "getOpenAI openaiClient = (case openaiClient of None \<Rightarrow> Inl NotInitialized | Some c \<Rightarrow> Inr c)"

definition error_marker :: "string \<Rightarrow> string \<Rightarrow> string" where
  "error_marker m message = ''[Error calling '' @ m @ '': '' @ message @ '']''"

text \<open>The body of \<open>callModel\<close> after \<open>getOpenAI()\<close> has returned the client.\<close>

definition callModel_with :: "OpenAI \<Rightarrow> string \<Rightarrow> nat \<Rightarrow> io \<Rightarrow> string \<times> io" where
  "callModel_with openai m maxTokens w =
     ((case create openai (length (requests w)) of
         Completion c \<Rightarrow> or_str c []
       | Throws message \<Rightarrow> error_marker m message),
      w\<lparr> requests := requests w @ [\<lparr> req_model = m, max_tokens = maxTokens, stream = False \<rparr>] \<rparr>)"

definition callModel :: "OpenAI option \<Rightarrow> string \<Rightarrow> nat \<Rightarrow> io \<Rightarrow> error + string \<times> io" where
  "callModel openaiClient m maxTokens w =
     (case getOpenAI openaiClient of
        Inl e \<Rightarrow> Inl e
      | Inr openai \<Rightarrow> Inr (callModel_with openai m maxTokens w))"

definition callModelStreaming_with :: "OpenAI \<Rightarrow> string \<Rightarrow> nat \<Rightarrow> io \<Rightarrow> string \<times> io" where
  "callModelStreaming_with openai m maxTokens w =
     ((case create_stream openai (length (requests w)) of
         Chunks cs \<Rightarrow> concat (map (\<lambda>c. or_str c []) cs)
       | StreamThrows message \<Rightarrow> error_marker m message),
      w\<lparr> requests := requests w @ [\<lparr> req_model = m, max_tokens = maxTokens, stream = True \<rparr>] \<rparr>)"

definition callModelStreaming :: "OpenAI option \<Rightarrow> string \<Rightarrow> nat \<Rightarrow> io \<Rightarrow> error + string \<times> io" where
  "callModelStreaming openaiClient m maxTokens w =
     (case getOpenAI openaiClient of
        Inl e \<Rightarrow> Inl e
      | Inr openai \<Rightarrow> Inr (callModelStreaming_with openai m maxTokens w))"

text \<open>
  The environment of a run whose client is initialised: the client, the runtime's
  \<open>JSON.parse\<close> (read at the fields of \<open>payload\<close>) and the wall clock.
\<close>

record env =
  openai :: OpenAI
  JSON_parse :: "string \<Rightarrow> payload option"
  Date_now :: "nat \<Rightarrow> int"

subsection \<open>Stage 0: Task Profiler\<close>

definition tier_ceiling :: "NexusTier \<Rightarrow> rat" where
  "tier_ceiling tier = (if tier = TierMax then 3 else if tier = TierHigh then 2 else 1)"

definition tier_chief :: "NexusTier \<Rightarrow> string" where
  "tier_chief tier =
     (if tier = TierMax then MODELS_chiefMax else if tier = TierHigh then MODELS_chiefHigh
      else MODELS_chiefLow)"

definition profile_budget :: "payload option \<Rightarrow> NexusTier \<Rightarrow> ReasoningBudget" where
  "profile_budget parsed tier =
     (case parsed of
        Some p \<Rightarrow>
          \<lparr> taskType = or_str (p_taskType p) ''reasoning'',
            complexity = or_str (p_complexity p) ''medium'',
            riskScore = or_num (p_riskScore p) (1 / 2),
            allowedDepth = min (or_num (p_allowedDepth p) 2) (tier_ceiling tier),
            branches = or_obj (p_requiredBranches p) [''logic'', ''world''],
            chiefModel = tier_chief tier \<rparr>
      | None \<Rightarrow>
          \<lparr> taskType = ''reasoning'',
            complexity = ''medium'',
            riskScore = 1 / 2,
            allowedDepth = tier_ceiling tier,
            branches = [''logic'', ''world'', ''code''],
            chiefModel = tier_chief tier \<rparr>)"

definition stage0_TaskProfiler :: "env \<Rightarrow> NexusTier \<Rightarrow> io \<Rightarrow> ReasoningBudget \<times> io" where
  "stage0_TaskProfiler E tier w =
     (let w1 = logSection ''STAGE 0: Task Profiler & Budget Allocator'' w;
          (response, w2) = callModel_with (openai E) MODELS_profiler 1500 w1;
          parsed = parseJsonFromResponse (JSON_parse E) response
      in (profile_budget parsed tier, w2))"

subsection \<open>Stage A: Structured Decomposition\<close>

definition stageA_StructuredDecomposition :: "env \<Rightarrow> io \<Rightarrow> TriStructurePack \<times> io" where
  "stageA_StructuredDecomposition E w =
     (let w0 = logSection ''STAGE A: Structured Decomposition Layer'' w;
          (s, w1) = callModel_with (openai E) MODELS_cheap 1500 w0;
          (i, w2) = callModel_with (openai E) MODELS_cheap 1500 w1;
          (f, w3) = callModel_with (openai E) MODELS_cheap 1500 w2
      in (\<lparr> symbolic = s, invariants = i, formal = f \<rparr>, w3))"

subsection \<open>Stage B: Dendritic Branches\<close>

text \<open>
  \<open>branchConfigs[branchName]\<close> reads a property of an object literal. The five own
  properties are the registry. A name that \<open>Object.prototype\<close> defines is found as well:
  the value is a function or an object, so \<open>!config\<close> is false, and its \<open>model\<close> and
  \<open>systemPrompt\<close> are \<open>undefined\<close>. Every other name gives \<open>undefined\<close>.
\<close>

datatype config_lookup = Own BranchConfig | Inherited | Undefined

definition Object_prototype_names :: "string list" where
  "Object_prototype_names =
     [''constructor'', ''hasOwnProperty'', ''isPrototypeOf'', ''propertyIsEnumerable'',
      ''toLocaleString'', ''toString'', ''valueOf'', ''__proto__'', ''__defineGetter__'',
      ''__defineSetter__'', ''__lookupGetter__'', ''__lookupSetter__'']"

definition registry_names :: "string list" where
  "registry_names = [''logic'', ''pattern'', ''world'', ''code'', ''adversarial'']"

definition branchConfigs :: "string \<Rightarrow> config_lookup" where
  "branchConfigs name =
     (if name = ''logic'' then
        Own \<lparr> model = MODELS_logic, systemPrompt = ''You are the Logic Branch of a reasoning network.'' \<rparr>
      else if name = ''pattern'' then
        Own \<lparr> model = MODELS_pattern, systemPrompt = ''You are the Pattern Branch of a reasoning network.'' \<rparr>
      else if name = ''world'' then
        Own \<lparr> model = MODELS_world, systemPrompt = ''You are the World Knowledge Branch of a reasoning network.'' \<rparr>
      else if name = ''code'' then
        Own \<lparr> model = MODELS_code, systemPrompt = ''You are the Code/Algorithm Branch of a reasoning network.'' \<rparr>
      else if name = ''adversarial'' then
        Own \<lparr> model = MODELS_adversarial, systemPrompt = ''You are the Adversarial Branch of a reasoning network.'' \<rparr>
      else if name \<in> set Object_prototype_names then Inherited
      else Undefined)"

text \<open>The template \<open>${model}\<close> of the error marker prints a missing model as \<open>undefined\<close>.\<close>

definition config_model :: "config_lookup \<Rightarrow> string" where
  "config_model c = (case c of Own cfg \<Rightarrow> model cfg | _ \<Rightarrow> ''undefined'')"

definition branch_output :: "string \<Rightarrow> string \<Rightarrow> payload option \<Rightarrow> BranchOutput" where
  "branch_output name response parsed =
     (case parsed of
        Some p \<Rightarrow>
          \<lparr> branchName = name,
            hypotheses = or_obj (p_hypotheses p) [],
            artifacts = or_obj (p_artifacts p) [],
            notes_text = or_str (p_notes p) [],
            contradictions = or_obj (p_contradictions p) [],
            confidence = or_num (p_confidence p) (1 / 2) \<rparr>
      | None \<Rightarrow>
          \<lparr> branchName = name,
            hypotheses = [take 500 response],
            artifacts = [],
            notes_text = response,
            contradictions = [],
            confidence = 1 / 2 \<rparr>)"

text \<open>\<open>scratchpad.entries.push({branch, timestamp: Date.now(), content, type})\<close>\<close>

definition push_entry :: "(nat \<Rightarrow> int) \<Rightarrow> string \<Rightarrow> EntryType \<Rightarrow> string \<Rightarrow> Scratchpad \<Rightarrow> Scratchpad" where
  "push_entry now name t c sp =
     sp\<lparr> entries := entries sp @
       [\<lparr> branch = name, timestamp = now (length (entries sp)), content = c, entryType = t \<rparr>] \<rparr>"

text \<open>The two pushes that follow a branch's response: its notes, then each hypothesis.\<close>

definition push_output :: "(nat \<Rightarrow> int) \<Rightarrow> BranchOutput \<Rightarrow> Scratchpad \<Rightarrow> Scratchpad" where
  "push_output now out sp =
     fold (push_entry now (branchName out) T_hypothesis) (hypotheses out)
       (push_entry now (branchName out) T_note (notes_text out) sp)"

text \<open>
  The callback of \<open>budget.branches.map\<close>, run over the requested names in order; \<open>None\<close>
  is the \<open>null\<close> of a name without configuration.
\<close>

fun branchPromises :: "env \<Rightarrow> string list \<Rightarrow> Scratchpad \<Rightarrow> io \<Rightarrow> BranchOutput option list \<times> Scratchpad \<times> io" where
  "branchPromises E [] sp w = ([], sp, w)"
| "branchPromises E (name # names) sp w =
     (let config = branchConfigs name in
      if config = Undefined then
        (let (results, sp', w') = branchPromises E names sp w in (None # results, sp', w'))
      else
        (let (response, w1) = callModel_with (openai E) (config_model config) 800 w;
             parsed = parseJsonFromResponse (JSON_parse E) response;
             out = branch_output name response parsed;
             sp1 = push_output (Date_now E) out sp;
             (results, sp', w') = branchPromises E names sp1 w1
         in (Some out # results, sp', w')))"

definition stageB_DendriticBranches :: "env \<Rightarrow> ReasoningBudget \<Rightarrow> Scratchpad \<Rightarrow> io \<Rightarrow> BranchOutput list \<times> Scratchpad \<times> io" where
  "stageB_DendriticBranches E bud sp w =
     (let w0 = logSection ''STAGE B: Dendritic Branch Network'' w;
          (results, sp', w') = branchPromises E (branches bud) sp w0
      in (List.map_filter (\<lambda>r. r) results, sp', w'))"

subsection \<open>Stage C: Verification\<close>

text \<open>
  \<open>branchOutputs.reduce((sum, b) => sum + b.confidence, 0) / branchOutputs.length\<close>:
  over an empty array the sum is the initial \<open>0\<close> and the length is \<open>0\<close>, and \<open>0 / 0\<close> is
  \<open>NaN\<close>.
\<close>

definition avgConfidence :: "BranchOutput list \<Rightarrow> jsnum" where
  "avgConfidence outputs =
     (if length outputs = 0 then NaN
      else Num (sum_list (map confidence outputs) / of_nat (length outputs)))"

text \<open>The variable \<open>uncertaintyScore\<close> before the blend: \<open>0.5\<close>, or \<open>csParsed.uncertainty || 0.5\<close>.\<close>

definition reported_uncertainty :: "payload option \<Rightarrow> rat" where
  "reported_uncertainty csParsed =
     (case csParsed of None \<Rightarrow> 1 / 2 | Some p \<Rightarrow> or_num (p_uncertainty p) (1 / 2))"

definition scores_map :: "(string \<times> rat) list \<Rightarrow> (string \<rightharpoonup> rat)" where
  "scores_map kvs = fold (\<lambda>(k, v) m. m(k \<mapsto> v)) kvs Map.empty"

definition verification_result :: "payload option \<Rightarrow> payload option \<Rightarrow> BranchOutput list \<Rightarrow> VerificationResult" where
  "verification_result ceParsed csParsed outputs =
     \<lparr> branchScores =
         (case csParsed of None \<Rightarrow> Map.empty
          | Some p \<Rightarrow> (case p_branch_scores p of None \<Rightarrow> Map.empty | Some kvs \<Rightarrow> scores_map kvs)),
       counterexamples =
         (case ceParsed of None \<Rightarrow> [] | Some p \<Rightarrow> or_obj (p_counterexamples p) []),
       allContradictions = concat (map contradictions outputs),
       provenInvariants =
         (case csParsed of None \<Rightarrow> [] | Some p \<Rightarrow> or_obj (p_proven_invariants p) []),
       uncertaintyScore =
         js_half (js_add (Num (reported_uncertainty csParsed))
                         (js_sub (Num 1) (avgConfidence outputs))),
       weakPoints =
         (case csParsed of None \<Rightarrow> [] | Some p \<Rightarrow> or_obj (p_weak_points p) []) \<rparr>"

text \<open>The scratchpad is only read, for the prompt.\<close>

definition stageC_Verification :: "env \<Rightarrow> BranchOutput list \<Rightarrow> Scratchpad \<Rightarrow> io \<Rightarrow> VerificationResult \<times> io" where
  "stageC_Verification E outputs sp w =
     (let w0 = logSection ''STAGE C: Verification Layer & Uncertainty Engine'' w;
          (counterexampleResult, w1) = callModel_with (openai E) MODELS_cheap 600 w0;
          (consistencyResult, w2) = callModel_with (openai E) MODELS_cheap 600 w1;
          ceParsed = parseJsonFromResponse (JSON_parse E) counterexampleResult;
          csParsed = parseJsonFromResponse (JSON_parse E) consistencyResult
      in (verification_result ceParsed csParsed outputs, w2))"

subsection \<open>Stage D: Adaptive Recurrence\<close>

text \<open>\<open>wp.includes(name)\<close>: \<open>name\<close> occurs in \<open>wp\<close> as a contiguous substring.\<close>

fun starts_with :: "string \<Rightarrow> string \<Rightarrow> bool" where
  "starts_with s [] = True"
| "starts_with [] (c # t) = False"
| "starts_with (x # s) (c # t) = (x = c \<and> starts_with s t)"

fun includes_str :: "string \<Rightarrow> string \<Rightarrow> bool" where
  "includes_str [] t = (t = [])"
| "includes_str (x # s) t = (starts_with (x # s) t \<or> includes_str s t)"

definition UNCERTAINTY_THRESHOLD :: rat where "UNCERTAINTY_THRESHOLD = 55 / 100"
definition MIN_BRANCH_SCORE :: rat where "MIN_BRANCH_SCORE = 5 / 10"

text \<open>
  The predicate of \<open>branchOutputs.filter\<close>:
  \<open>score = verification.branchScores.get(b.branchName) || b.confidence\<close>, then
  \<open>score < MIN_BRANCH_SCORE || verification.weakPoints.some(wp => wp.includes(b.branchName))\<close>.
\<close>

definition branch_score :: "VerificationResult \<Rightarrow> BranchOutput \<Rightarrow> rat" where
  "branch_score v b = or_num (branchScores v (branchName b)) (confidence b)"

definition is_weak :: "VerificationResult \<Rightarrow> BranchOutput \<Rightarrow> bool" where
  "is_weak v b =
     (branch_score v b < MIN_BRANCH_SCORE \<or> list_ex (\<lambda>wp. includes_str wp (branchName b)) (weakPoints v))"

definition refine_output :: "BranchOutput \<Rightarrow> string \<Rightarrow> payload option \<Rightarrow> BranchOutput" where
  "refine_output b response refined =
     (case refined of
        Some p \<Rightarrow>
          \<lparr> branchName = branchName b,
            hypotheses = or_obj (p_hypotheses p) (hypotheses b),
            artifacts = or_obj (p_artifacts p) (artifacts b),
            notes_text = or_str (p_notes p) response,
            contradictions = or_obj (p_contradictions p) [],
            confidence = min (or_num (p_confidence p) (confidence b) + 1 / 10) (95 / 100) \<rparr>
      | None \<Rightarrow> b\<lparr> confidence := confidence b + 1 / 10 \<rparr>)"

text \<open>
  The callback of \<open>branchOutputs.map\<close> in the recurrence: a branch none of the weak
  branches shares its name with is returned as it is, without a request.
\<close>

fun updatedBranchPromises :: "env \<Rightarrow> BranchOutput list \<Rightarrow> BranchOutput list \<Rightarrow> io \<Rightarrow> BranchOutput list \<times> io" where
  "updatedBranchPromises E weakBranches [] w = ([], w)"
| "updatedBranchPromises E weakBranches (b # bs) w =
     (if \<not> list_ex (\<lambda>wb. branchName wb = branchName b) weakBranches then
        (let (rs, w') = updatedBranchPromises E weakBranches bs w in (b # rs, w'))
      else
        (let m = (if branchName b = ''code'' then MODELS_code else MODELS_cheap);
             (response, w1) = callModel_with (openai E) m 800 w;
             refined = parseJsonFromResponse (JSON_parse E) response;
             (rs, w') = updatedBranchPromises E weakBranches bs w1
         in (refine_output b response refined # rs, w')))"

record RecurrenceResult =
  shouldRecur :: bool
  updatedBranches :: "BranchOutput list"

text \<open>
  The stage receives the scratchpad and does not use it; the model hands it back, so
  that what a pass leaves in the shared object can be stated. The parsed instructions
  only enter the prompts of the re-runs, and the log line of a re-run, which takes
  \<open>instruction.slice(0, 50)\<close>: the instruction looked up for a branch is taken to be a
  string, or missing. Where the lookup gives another truthy value (what \<open>Object.prototype\<close>
  holds under the branch's name, such as \<open>constructor\<close>, or a non-string in the parsed
  reply), the source raises a \<open>TypeError\<close> there and the run does not complete.
\<close>

definition stageD_AdaptiveRecurrence ::
  "env \<Rightarrow> BranchOutput list \<Rightarrow> Scratchpad \<Rightarrow> VerificationResult \<Rightarrow> ReasoningBudget \<Rightarrow> nat \<Rightarrow> io
    \<Rightarrow> RecurrenceResult \<times> Scratchpad \<times> io" where
  "stageD_AdaptiveRecurrence E outputs sp v bud count w =
     (let w0 = logSection ''STAGE D: Adaptive Recurrence Pass'' w in
      if js_less (uncertaintyScore v) UNCERTAINTY_THRESHOLD \<and> length (weakPoints v) = 0 then
        (\<lparr> shouldRecur = False, updatedBranches = outputs \<rparr>, sp, w0)
      else if of_nat count \<ge> allowedDepth bud then
        (\<lparr> shouldRecur = False, updatedBranches = outputs \<rparr>, sp, w0)
      else
        (let weakBranches = filter (is_weak v) outputs in
         if length weakBranches = 0 then
           (\<lparr> shouldRecur = False, updatedBranches = outputs \<rparr>, sp, w0)
         else
           (let (instructionResult, w1) = callModel_with (openai E) MODELS_cheap 400 w0;
                (updated, w2) = updatedBranchPromises E weakBranches outputs w1
            in (\<lparr> shouldRecur = True, updatedBranches = updated \<rparr>, sp, w2))))"

subsection \<open>Final stage and fast path\<close>

record ARDRState =
  originalPrompt :: string
  tier :: NexusTier
  budget :: ReasoningBudget
  triPack :: TriStructurePack
  scratchpad :: Scratchpad
  branchOutputs :: "BranchOutput list"
  verification :: VerificationResult
  recurrenceCount :: nat
  finalResponse :: string

definition stageFinal_GrandSynthesis :: "env \<Rightarrow> ARDRState \<Rightarrow> io \<Rightarrow> string \<times> io" where
  "stageFinal_GrandSynthesis E state w =
     (let w0 = logSection ''FINAL STAGE: Grand Synthesizer'' w;
          maxTokens = (if tier state = TierMax then 8000 else if tier state = TierHigh then 4000 else 2000)
      in callModelStreaming_with (openai E) (chiefModel (budget state)) maxTokens w0)"

definition handleConversation :: "env \<Rightarrow> NexusTier \<Rightarrow> io \<Rightarrow> string \<times> io" where
  "handleConversation E t w =
     (let chief = (if t = TierMax then MODELS_chiefMax else if t = TierHigh then MODELS_chiefHigh
                   else MODELS_chiefLow)
      in callModelStreaming_with (openai E) chief 1500 w)"

subsection \<open>The pipeline (\<^verbatim>\<open>runARDR\<close>)\<close>

text \<open>
  The \<open>while\<close> loop of \<open>runARDR\<close>, with its flag \<open>shouldContinue\<close>. Each gateway call is
  taken to return; under that, the loop is a total function (its termination is proved).
\<close>

function recurrence_loop :: "env \<Rightarrow> bool \<Rightarrow> ARDRState \<Rightarrow> io \<Rightarrow> ARDRState \<times> io" where
  "recurrence_loop E shouldContinue state w =
     (if shouldContinue \<and> of_nat (recurrenceCount state) < allowedDepth (budget state) then
        (let (recurrenceResult, sp, w1) =
               stageD_AdaptiveRecurrence E (branchOutputs state) (scratchpad state)
                 (verification state) (budget state) (recurrenceCount state) w;
             state1 = state\<lparr> scratchpad := sp, branchOutputs := updatedBranches recurrenceResult \<rparr>
         in if shouldRecur recurrenceResult then
              (let state2 = state1\<lparr> recurrenceCount := recurrenceCount state1 + 1 \<rparr>;
                   (v, w2) = stageC_Verification E (branchOutputs state2) (scratchpad state2) w1
               in recurrence_loop E True (state2\<lparr> verification := v \<rparr>) w2)
            else recurrence_loop E False state1 w1)
      else (state, w))"
  by pat_completeness auto
termination
proof (relation "measure (\<lambda>(E, c, state, w).
          (if c then 1 else 0) + nat \<lceil>allowedDepth (budget state) - of_nat (recurrenceCount state)\<rceil>)")
  show "wf (measure (\<lambda>(E, c, state, w).
          (if c then 1 else 0) + nat \<lceil>allowedDepth (budget state) - of_nat (recurrenceCount state)\<rceil>))"
    by simp
next
  fix E :: env and shouldContinue :: bool and state :: ARDRState and w :: io
    and x :: "RecurrenceResult \<times> Scratchpad \<times> io" and recurrenceResult xa sp w1 state1 state2
    and xb :: "VerificationResult \<times> io" and v w2
  assume c: "shouldContinue \<and> of_nat (recurrenceCount state) < allowedDepth (budget state)"
    and s1: "state1 = state\<lparr> scratchpad := sp, branchOutputs := updatedBranches recurrenceResult \<rparr>"
    and s2: "state2 = state1\<lparr> recurrenceCount := recurrenceCount state1 + 1 \<rparr>"
  have eq: "allowedDepth (budget state) - (1 + of_nat (recurrenceCount state))
        = (allowedDepth (budget state) - of_nat (recurrenceCount state)) - 1"
    by simp
  have "\<lceil>allowedDepth (budget state) - (1 + of_nat (recurrenceCount state))\<rceil>
        = \<lceil>allowedDepth (budget state) - of_nat (recurrenceCount state)\<rceil> - 1"
    unfolding eq by simp
  moreover have "0 < \<lceil>allowedDepth (budget state) - of_nat (recurrenceCount state)\<rceil>"
    using c by simp
  ultimately show "((E, True, state2\<lparr> verification := v \<rparr>, w2), E, shouldContinue, state, w)
        \<in> measure (\<lambda>(E, c, state, w).
          (if c then 1 else 0) + nat \<lceil>allowedDepth (budget state) - of_nat (recurrenceCount state)\<rceil>)"
    using c by (simp add: s1 s2)
next
  fix E :: env and shouldContinue :: bool and state :: ARDRState and w :: io
    and x :: "RecurrenceResult \<times> Scratchpad \<times> io" and recurrenceResult xa sp w1 state1
  assume c: "shouldContinue \<and> of_nat (recurrenceCount state) < allowedDepth (budget state)"
    and s1: "state1 = state\<lparr> scratchpad := sp, branchOutputs := updatedBranches recurrenceResult \<rparr>"
  show "((E, False, state1, w1), E, shouldContinue, state, w)
        \<in> measure (\<lambda>(E, c, state, w).
          (if c then 1 else 0) + nat \<lceil>allowedDepth (budget state) - of_nat (recurrenceCount state)\<rceil>)"
    using c by (simp add: s1)
qed

declare recurrence_loop.simps [simp del]

definition fresh_scratchpad :: Scratchpad where
  "fresh_scratchpad = \<lparr> entries = [], sharedArtifacts = Map.empty \<rparr>"

text \<open>
  The stages between the fast-path test and the synthesis, on the local \<open>state\<close> of
  \<open>runARDR\<close>: first decomposition, branches and verification, which fill the state, then
  the recurrence loop.
\<close>

definition first_pass :: "env \<Rightarrow> string \<Rightarrow> NexusTier \<Rightarrow> ReasoningBudget \<Rightarrow> io \<Rightarrow> ARDRState \<times> io" where
  "first_pass E prompt t bud w1 =
     (let (tp, w2) = stageA_StructuredDecomposition E w1;
          (outputs, sp, w3) = stageB_DendriticBranches E bud fresh_scratchpad w2;
          (v, w4) = stageC_Verification E outputs sp w3
      in (\<lparr> originalPrompt = prompt, tier = t, budget = bud, triPack = tp,
            scratchpad = sp, branchOutputs = outputs, verification = v,
            recurrenceCount = 0, finalResponse = [] \<rparr>, w4))"

definition reasoning_stages :: "env \<Rightarrow> string \<Rightarrow> NexusTier \<Rightarrow> ReasoningBudget \<Rightarrow> io \<Rightarrow> ARDRState \<times> io" where
  "reasoning_stages E prompt t bud w1 =
     (let (state, w4) = first_pass E prompt t bud w1 in recurrence_loop E True state w4)"

text \<open>
  \<open>runARDR\<close> with an initialised client. Besides the response it returns, the model
  keeps the final local state (\<open>None\<close> on the fast path, which returns before the state
  is filled) and the effects.
\<close>

definition run_pipeline :: "env \<Rightarrow> string \<Rightarrow> NexusTier \<Rightarrow> (string \<times> ARDRState option) \<times> io" where
  "run_pipeline E prompt t =
     (let (bud, w1) = stage0_TaskProfiler E t io_start in
      if taskType bud = ''conversation'' \<or> length (branches bud) = 0 then
        (let (response, w') = handleConversation E t w1 in ((response, None), w'))
      else
        (let (state, w5) = reasoning_stages E prompt t bud w1;
             (response, w6) = stageFinal_GrandSynthesis E state w5
         in ((response, Some (state\<lparr> finalResponse := response \<rparr>)), w6)))"

definition runARDR_with :: "env \<Rightarrow> string \<Rightarrow> NexusTier \<Rightarrow> string \<times> io" where
  "runARDR_with E prompt t = (fst (fst (run_pipeline E prompt t)), snd (run_pipeline E prompt t))"

definition final_state :: "env \<Rightarrow> string \<Rightarrow> NexusTier \<Rightarrow> ARDRState option" where
  "final_state E prompt t = snd (fst (run_pipeline E prompt t))"

text \<open>
  The module's client handle is assigned by \<open>initializeOpenAI\<close> only, so it is the same
  at every gateway call of a run. The first of them is the profiler's: with the handle
  unset, \<open>getOpenAI\<close> throws there, and nothing in \<open>runARDR\<close> catches it.
\<close>

definition runARDR ::
  "OpenAI option \<Rightarrow> (string \<Rightarrow> payload option) \<Rightarrow> (nat \<Rightarrow> int) \<Rightarrow> string \<Rightarrow> NexusTier \<Rightarrow> error + string \<times> io" where
  "runARDR openaiClient parse now prompt t =
     (case getOpenAI openaiClient of
        Inl e \<Rightarrow> Inl e
      | Inr c \<Rightarrow> Inr (runARDR_with \<lparr> openai = c, JSON_parse = parse, Date_now = now \<rparr> prompt t))"

subsection \<open>The interpreter's contract in the specification's words\<close>

text \<open>
  The first balanced \<open>{...}\<close> region of a text: it starts at the leftmost \<open>{\<close> whose
  nesting closes, and ends where the nesting depth is back at zero.
\<close>

fun balanced_rest :: "nat \<Rightarrow> string \<Rightarrow> string option" where
  "balanced_rest d [] = None"
| "balanced_rest d (c # cs) =
     (if c = CHR ''{'' then map_option (Cons c) (balanced_rest (Suc d) cs)
      else if c = CHR ''}'' then
        (if d = 0 then Some [c] else map_option (Cons c) (balanced_rest (d - 1) cs))
      else map_option (Cons c) (balanced_rest d cs))"

fun spec_first_balanced :: "string \<Rightarrow> string option" where
  "spec_first_balanced [] = None"
| "spec_first_balanced (c # cs) =
     (if c = CHR ''{'' then
        (case balanced_rest 0 cs of Some r \<Rightarrow> Some (c # r) | None \<Rightarrow> spec_first_balanced cs)
      else spec_first_balanced cs)"

definition spec_interpreter :: "(string \<Rightarrow> 'a option) \<Rightarrow> string \<Rightarrow> 'a option" where
  "spec_interpreter parse response =
     (case spec_first_balanced response of None \<Rightarrow> None | Some region \<Rightarrow> parse region)"

subsection \<open>Concrete environments\<close>

text \<open>
  A provider that answers every request with the same text, except at the request
  numbers in \<open>failing\<close>, where the call throws; a \<open>JSON.parse\<close> that knows that one text;
  a clock that ticks once per push.
\<close>

definition scripted_env :: "string \<Rightarrow> payload \<Rightarrow> nat list \<Rightarrow> env" where
  "scripted_env reply p failing =
     \<lparr> openai = \<lparr> create = (\<lambda>n. if n \<in> set failing then Throws ''timeout''
                                else Completion (Some reply)),
                  create_stream = (\<lambda>n. Chunks [Some ''Hello'', None, Some ''!'']) \<rparr>,
       JSON_parse = (\<lambda>s. if s = reply then Some p else None),
       Date_now = (\<lambda>k. 1700000000000 + int k) \<rparr>"

text \<open>The value of \<open>parsed\<close> in \<open>stage0_TaskProfiler\<close>.\<close>

definition profiler_parsed :: "env \<Rightarrow> io \<Rightarrow> payload option" where
  "profiler_parsed E w =
     parseJsonFromResponse (JSON_parse E)
       (fst (callModel_with (openai E) MODELS_profiler 1500
               (logSection ''STAGE 0: Task Profiler & Budget Allocator'' w)))"

text \<open>Profiler replies that propose a depth: five, minus one, one and a half.\<close>

definition reply_depth5 :: string where
  \<open>reply_depth5 = ''{"taskType":"math","allowedDepth":5}''\<close>

definition payload_depth5 :: payload where
  "payload_depth5 = empty_payload\<lparr> p_taskType := Some ''math'', p_allowedDepth := Some 5 \<rparr>"

definition reply_negative_depth :: string where
  \<open>reply_negative_depth = ''{"allowedDepth":-1}''\<close>

definition payload_negative_depth :: payload where
  "payload_negative_depth = empty_payload\<lparr> p_allowedDepth := Some (- 1) \<rparr>"

definition reply_fractional_depth :: string where
  \<open>reply_fractional_depth =
     ''{"allowedDepth":1.5,"requiredBranches":["logic"],"weak_points":["logic"]}''\<close>

definition payload_fractional_depth :: payload where
  "payload_fractional_depth =
     empty_payload\<lparr> p_allowedDepth := Some (3 / 2), p_requiredBranches := Some [''logic''],
       p_weak_points := Some [''logic''] \<rparr>"

text \<open>A profiler reply that classifies the prompt as conversation.\<close>

definition reply_conversation :: string where
  \<open>reply_conversation = ''{"taskType":"conversation","requiredBranches":[]}''\<close>

definition payload_conversation :: payload where
  "payload_conversation =
     empty_payload\<lparr> p_taskType := Some ''conversation'', p_requiredBranches := Some [] \<rparr>"

text \<open>A profiler reply that asks for a branch the registry does not have.\<close>

definition reply_unknown_branch :: string where
  \<open>reply_unknown_branch = ''{"taskType":"reasoning","requiredBranches":["intuition"]}''\<close>

definition payload_unknown_branch :: payload where
  "payload_unknown_branch =
     empty_payload\<lparr> p_taskType := Some ''reasoning'', p_requiredBranches := Some [''intuition''] \<rparr>"

text \<open>A client whose every request fails.\<close>

definition failing_client :: OpenAI where
  "failing_client = \<lparr> create = (\<lambda>n. Throws ''timeout''), create_stream = (\<lambda>n. StreamThrows ''timeout'') \<rparr>"

text \<open>
  A reply in which the verifier scores the logic branch \<open>0\<close> and reports the
  uncertainty \<open>0\<close>, and the branch output and verification result it leads to.
\<close>

definition reply_zero_verdict :: string where
  \<open>reply_zero_verdict =
     ''{"requiredBranches":["logic"],"confidence":0.9,"branch_scores":{"logic":0},"weak_points":["missing edge cases"],"uncertainty":0}''\<close>

definition payload_zero_verdict :: payload where
  "payload_zero_verdict =
     empty_payload\<lparr> p_requiredBranches := Some [''logic''], p_confidence := Some (9 / 10),
       p_branch_scores := Some [(''logic'', 0)], p_weak_points := Some [''missing edge cases''],
       p_uncertainty := Some 0 \<rparr>"

definition logic_output :: BranchOutput where
  "logic_output = \<lparr> branchName = ''logic'', hypotheses = [], artifacts = [], notes_text = [],
     contradictions = [], confidence = 9 / 10 \<rparr>"

definition zero_verdict :: VerificationResult where
  "zero_verdict = \<lparr> branchScores = scores_map [(''logic'', 0)], counterexamples = [],
     allContradictions = [], provenInvariants = [], uncertaintyScore = Num (3 / 10),
     weakPoints = [''missing edge cases''] \<rparr>"

text \<open>
  A response with a JSON object followed by prose that has braces of its own, and a
  \<open>JSON.parse\<close> that reads the object (it throws on any text with trailing characters).
\<close>

definition reply_object :: string where
  \<open>reply_object = ''{"confidence":0.8}''\<close>

definition payload_object :: payload where
  "payload_object = empty_payload\<lparr> p_confidence := Some (8 / 10) \<rparr>"

definition response_with_prose :: string where
  \<open>response_with_prose = ''Result: {"confidence":0.8} (see {1})''\<close>

text \<open>The section title that marks a verification pass in the log.\<close>

definition STAGE_C :: string where
  "STAGE_C = ''STAGE C: Verification Layer & Uncertainty Engine''"

text \<open>
  A reply that serves every stage: the profiler reads the branch list, the logic branch
  its hypothesis and notes, the verifier a weak point that names the branch.
\<close>

definition reply_hypothesis :: string where
  \<open>reply_hypothesis =
     ''{"requiredBranches":["logic"],"hypotheses":["H"],"notes":"N","weak_points":["logic"]}''\<close>

definition payload_hypothesis :: payload where
  "payload_hypothesis =
     empty_payload\<lparr> p_requiredBranches := Some [''logic''], p_hypotheses := Some [''H''],
       p_notes := Some ''N'', p_weak_points := Some [''logic''] \<rparr>"





subsection \<open>The scratchpad contract in the specification's words\<close>

text \<open>
  What one branch pass is to append: its notes, then each of its hypotheses, as distinct
  entries tagged with the branch name; and the entries a list of such appends becomes
  when the first of them lands at position \<open>k\<close> of the log, each stamped by the clock.
\<close>

definition entries_of :: "BranchOutput \<Rightarrow> (string \<times> EntryType \<times> string) list" where
  "entries_of out =
     (branchName out, T_note, notes_text out)
       # map (\<lambda>h. (branchName out, T_hypothesis, h)) (hypotheses out)"

fun stamp :: "(nat \<Rightarrow> int) \<Rightarrow> nat \<Rightarrow> (string \<times> EntryType \<times> string) list \<Rightarrow> ScratchpadEntry list" where
  "stamp now k [] = []"
| "stamp now k ((b, t, c) # rest) =
     \<lparr> branch = b, timestamp = now k, content = c, entryType = t \<rparr> # stamp now (Suc k) rest"

subsection \<open>What the responses of a run report\<close>

text \<open>
  The text \<open>callModel\<close> returns for the \<open>n\<close>-th request of a run, when the request names
  the model \<open>m\<close>.
\<close>

definition response_at :: "env \<Rightarrow> nat \<Rightarrow> string \<Rightarrow> string" where
  "response_at E n m =
     (case create (openai E) n of
        Completion c \<Rightarrow> or_str c []
      | Throws message \<Rightarrow> error_marker m message)"







section \<open>Properties\<close>

subsection \<open>Task Profiler: the depth ceiling\<close>

lemma stage0_budget:
  "fst (stage0_TaskProfiler E t w) = profile_budget (profiler_parsed E w) t"
  by (simp add: stage0_TaskProfiler_def profiler_parsed_def Let_def split: prod.splits)

lemma tier_ceiling_cases: "tier_ceiling t = 1 \<or> tier_ceiling t = 2 \<or> tier_ceiling t = 3"
  by (simp add: tier_ceiling_def)

lemma profile_budget_depth_le: "allowedDepth (profile_budget parsed t) \<le> tier_ceiling t"
  by (cases parsed) (simp_all add: profile_budget_def)

lemma min_nat_ceiling:
  assumes "1 \<le> n"
  shows "min (rat_of_nat n) (tier_ceiling t) \<in> {1, 2, 3}"
proof -
  have "n = 1 \<or> n = 2 \<or> 3 \<le> n" using assms by arith
  moreover have "3 \<le> n \<Longrightarrow> (3::rat) \<le> of_nat n"
    by (metis of_nat_le_iff of_nat_numeral)
  ultimately show ?thesis
    using tier_ceiling_cases [of t] by (auto simp: min_def)
qed

text \<open>
  Claim C7, as the code has it. For every profiler response and every tier, the budget's
  \<open>allowedDepth\<close> never exceeds the tier ceiling (max tier 3, high 2, low 1): it is the
  ceiling when the response does not parse, and otherwise the smaller of the ceiling and
  the proposed depth (\<open>2\<close> when the model proposes none, or \<open>0\<close>). It is an integer in
  \<open>1..3\<close> whenever the response does not parse or the model proposes nothing, \<open>0\<close>, or
  an integer from \<open>1\<close> up. What the model proposes is not clamped from below and not
  rounded.
\<close>

theorem stage0_allowedDepth_ceiling:
  "allowedDepth (fst (stage0_TaskProfiler E t w)) \<le> tier_ceiling t
   \<and> tier_ceiling TierMax = 3 \<and> tier_ceiling TierHigh = 2 \<and> tier_ceiling TierLow = 1
   \<and> (profiler_parsed E w = None \<longrightarrow>
        allowedDepth (fst (stage0_TaskProfiler E t w)) = tier_ceiling t)
   \<and> (profiler_parsed E w = Some p \<longrightarrow>
        allowedDepth (fst (stage0_TaskProfiler E t w))
          = min (or_num (p_allowedDepth p) 2) (tier_ceiling t))
   \<and> (profiler_parsed E w = Some p
        \<and> (p_allowedDepth p = None \<or> p_allowedDepth p = Some 0
           \<or> (\<exists>n::nat. 1 \<le> n \<and> p_allowedDepth p = Some (of_nat n))) \<longrightarrow>
        allowedDepth (fst (stage0_TaskProfiler E t w)) \<in> {1, 2, 3})"
proof -
  have a: "allowedDepth (fst (stage0_TaskProfiler E t w)) \<le> tier_ceiling t"
    by (simp add: stage0_budget profile_budget_depth_le)
  have b: "tier_ceiling TierMax = 3 \<and> tier_ceiling TierHigh = 2 \<and> tier_ceiling TierLow = 1"
    by (simp add: tier_ceiling_def)
  have c: "profiler_parsed E w = None \<longrightarrow>
        allowedDepth (fst (stage0_TaskProfiler E t w)) = tier_ceiling t"
    by (simp add: stage0_budget profile_budget_def)
  have d: "profiler_parsed E w = Some p \<longrightarrow>
        allowedDepth (fst (stage0_TaskProfiler E t w))
          = min (or_num (p_allowedDepth p) 2) (tier_ceiling t)"
    by (simp add: stage0_budget profile_budget_def)
  have two: "min (2::rat) (tier_ceiling t) \<in> {1, 2, 3}"
    using tier_ceiling_cases [of t] by (auto simp: min_def)
  have e: "profiler_parsed E w = Some p
        \<and> (p_allowedDepth p = None \<or> p_allowedDepth p = Some 0
           \<or> (\<exists>n::nat. 1 \<le> n \<and> p_allowedDepth p = Some (of_nat n))) \<longrightarrow>
        allowedDepth (fst (stage0_TaskProfiler E t w)) \<in> {1, 2, 3}"
  proof (intro impI, elim conjE disjE exE)
    assume "profiler_parsed E w = Some p" "p_allowedDepth p = None"
    then show "allowedDepth (fst (stage0_TaskProfiler E t w)) \<in> {1, 2, 3}"
      using two by (simp add: stage0_budget profile_budget_def or_num_def)
  next
    assume "profiler_parsed E w = Some p" "p_allowedDepth p = Some 0"
    then show "allowedDepth (fst (stage0_TaskProfiler E t w)) \<in> {1, 2, 3}"
      using two by (simp add: stage0_budget profile_budget_def or_num_def)
  next
    fix n :: nat
    assume h: "profiler_parsed E w = Some p" "1 \<le> n" "p_allowedDepth p = Some (of_nat n)"
    then have "or_num (p_allowedDepth p) 2 = of_nat n"
      by (simp add: or_num_def)
    with h show "allowedDepth (fst (stage0_TaskProfiler E t w)) \<in> {1, 2, 3}"
      using min_nat_ceiling [of n t] by (simp add: stage0_budget profile_budget_def)
  qed
  from a b c d e show ?thesis by blast
qed

lemmas parse_defs = scripted_env_def callModel_with_def logSection_def io_start_def
  parseJsonFromResponse_def match_braces_def upto_last_close_def or_str_def

theorem stage0_allowedDepth_ceiling_witness:
  "profiler_parsed (scripted_env reply_depth5 payload_depth5 []) io_start = Some payload_depth5
   \<and> p_allowedDepth payload_depth5 = Some (of_nat 5)
   \<and> allowedDepth (fst (stage0_TaskProfiler (scripted_env reply_depth5 payload_depth5 []) TierHigh io_start)) = 2"
proof -
  have h: "profiler_parsed (scripted_env reply_depth5 payload_depth5 []) io_start = Some payload_depth5"
    by (simp add: profiler_parsed_def parse_defs reply_depth5_def)
  have k: "p_allowedDepth payload_depth5 = Some (of_nat 5)"
    by (simp add: payload_depth5_def empty_payload_def)
  from stage0_allowedDepth_ceiling [of "scripted_env reply_depth5 payload_depth5 []" TierHigh io_start payload_depth5] h
  have "allowedDepth (fst (stage0_TaskProfiler (scripted_env reply_depth5 payload_depth5 []) TierHigh io_start))
          = min (or_num (p_allowedDepth payload_depth5) 2) (tier_ceiling TierHigh)"
    by blast
  then show ?thesis using h k by (simp add: or_num_def tier_ceiling_def)
qed

text \<open>
  Claim C7 as stated (an integer in \<open>1..3\<close> whatever the model proposes) fails: a
  proposal of \<open>-1\<close> at the max tier gives \<open>allowedDepth = -1\<close>, and a proposal of \<open>1.5\<close>
  at the high tier gives \<open>1.5\<close>.
\<close>

theorem stage0_allowedDepth_range_counterexample:
  "allowedDepth (fst (stage0_TaskProfiler
      (scripted_env reply_negative_depth payload_negative_depth []) TierMax io_start)) = - 1
   \<and> allowedDepth (fst (stage0_TaskProfiler
      (scripted_env reply_negative_depth payload_negative_depth []) TierMax io_start)) \<notin> {1, 2, 3}
   \<and> allowedDepth (fst (stage0_TaskProfiler
      (scripted_env reply_fractional_depth payload_fractional_depth []) TierHigh io_start)) = 3 / 2"
  by (simp add: stage0_TaskProfiler_def parse_defs profile_budget_def or_num_def or_obj_def
      tier_ceiling_def tier_chief_def reply_negative_depth_def payload_negative_depth_def
      reply_fractional_depth_def payload_fractional_depth_def empty_payload_def)

subsection \<open>Fast path\<close>

lemma stage0_io:
  "snd (stage0_TaskProfiler E t w) =
     w\<lparr> sections := sections w @ [''STAGE 0: Task Profiler & Budget Allocator''],
        requests := requests w @ [\<lparr> req_model = MODELS_profiler, max_tokens = 1500, stream = False \<rparr>] \<rparr>"
  by (simp add: stage0_TaskProfiler_def callModel_with_def logSection_def Let_def)

lemma stage0_chief: "chiefModel (fst (stage0_TaskProfiler E t w)) = tier_chief t"
  by (simp add: stage0_budget profile_budget_def split: option.splits)

text \<open>
  Claim C3. When the profiled budget has \<open>taskType = "conversation"\<close> or no branches, the
  run sends exactly two requests, the profiler's and one streaming request to the
  tier's chief model, and returns what that call gives (the concatenated chunks, or the
  error marker); Stage 0 is the only stage that is entered, and the local state is never
  filled.
\<close>

theorem fast_path_single_call:
  assumes "taskType (fst (stage0_TaskProfiler E t io_start)) = ''conversation''
           \<or> branches (fst (stage0_TaskProfiler E t io_start)) = []"
  shows "requests (snd (runARDR_with E prompt t)) =
           [\<lparr> req_model = MODELS_profiler, max_tokens = 1500, stream = False \<rparr>,
            \<lparr> req_model = tier_chief t, max_tokens = 1500, stream = True \<rparr>]
         \<and> sections (snd (runARDR_with E prompt t)) = [''STAGE 0: Task Profiler & Budget Allocator'']
         \<and> fst (runARDR_with E prompt t) =
             (case create_stream (openai E) 1 of
                Chunks cs \<Rightarrow> concat (map (\<lambda>c. or_str c []) cs)
              | StreamThrows message \<Rightarrow> error_marker (tier_chief t) message)
         \<and> final_state E prompt t = None
         \<and> chiefModel (fst (stage0_TaskProfiler E t io_start)) = tier_chief t"
proof -
  obtain bud w1 where s0: "stage0_TaskProfiler E t io_start = (bud, w1)"
    by (cases "stage0_TaskProfiler E t io_start")
  have w1: "w1 = \<lparr> requests = [\<lparr> req_model = MODELS_profiler, max_tokens = 1500, stream = False \<rparr>],
                    sections = [''STAGE 0: Task Profiler & Budget Allocator''] \<rparr>"
    using stage0_io [of E t io_start] s0 by (simp add: io_start_def)
  have fast: "taskType bud = ''conversation'' \<or> length (branches bud) = 0"
    using assms s0 by simp
  have run: "run_pipeline E prompt t =
      (let (response, w') = handleConversation E t w1 in ((response, None), w'))"
    using fast s0 by (simp add: run_pipeline_def)
  have chief: "(if t = TierMax then MODELS_chiefMax else if t = TierHigh then MODELS_chiefHigh
                else MODELS_chiefLow) = tier_chief t"
    by (simp add: tier_chief_def)
  show ?thesis
    using stage0_chief [of E t io_start]
    by (simp add: runARDR_with_def final_state_def run handleConversation_def chief
        callModelStreaming_with_def w1 Let_def split: prod.splits)
qed

theorem fast_path_single_call_witness:
  "taskType (fst (stage0_TaskProfiler (scripted_env reply_conversation payload_conversation []) TierHigh io_start))
     = ''conversation''
   \<and> requests (snd (runARDR_with (scripted_env reply_conversation payload_conversation []) ''hi'' TierHigh)) =
       [\<lparr> req_model = ''meta-llama/llama-3.3-70b-instruct:free'', max_tokens = 1500, stream = False \<rparr>,
        \<lparr> req_model = ''deepseek/deepseek-chat-v3-0324'', max_tokens = 1500, stream = True \<rparr>]
   \<and> fst (runARDR_with (scripted_env reply_conversation payload_conversation []) ''hi'' TierHigh) = ''Hello!''"
proof -
  have h: "taskType (fst (stage0_TaskProfiler (scripted_env reply_conversation payload_conversation []) TierHigh io_start))
     = ''conversation''"
    by (simp add: stage0_TaskProfiler_def parse_defs profile_budget_def reply_conversation_def
        payload_conversation_def empty_payload_def)
  then have "taskType (fst (stage0_TaskProfiler (scripted_env reply_conversation payload_conversation []) TierHigh io_start)) = ''conversation''
           \<or> branches (fst (stage0_TaskProfiler (scripted_env reply_conversation payload_conversation []) TierHigh io_start)) = []"
    by simp
  from fast_path_single_call [OF this, of "''hi''"] h show ?thesis
    by (simp add: tier_chief_def MODELS_profiler_def MODELS_chiefHigh_def scripted_env_def or_str_def)
qed

subsection \<open>Gateway\<close>

text \<open>
  Claim C9. With the client initialised, \<open>callModel\<close> and \<open>callModelStreaming\<close> return a
  string whatever the provider does, and a provider error comes back as the text
  \<open>[Error calling <model>: <message>]\<close>. With the client unset, both raise, and so
  does the whole run, at its first gateway call. (A thrown value is taken to be an
  \<open>Error\<close> with a \<open>message\<close>.)
\<close>

theorem callModel_never_raises:
  "(\<exists>r. callModel (Some c) m k w = Inr r)
   \<and> (\<exists>r. callModelStreaming (Some c) m k w = Inr r)
   \<and> (create c (length (requests w)) = Throws message \<longrightarrow>
        (\<exists>w'. callModel (Some c) m k w = Inr (''[Error calling '' @ m @ '': '' @ message @ '']'', w')))
   \<and> (create_stream c (length (requests w)) = StreamThrows message \<longrightarrow>
        (\<exists>w'. callModelStreaming (Some c) m k w = Inr (''[Error calling '' @ m @ '': '' @ message @ '']'', w')))
   \<and> callModel None m k w = Inl NotInitialized
   \<and> callModelStreaming None m k w = Inl NotInitialized
   \<and> runARDR None parse now prompt t = Inl NotInitialized"
  by (simp add: callModel_def callModelStreaming_def getOpenAI_def callModel_with_def
      callModelStreaming_with_def error_marker_def runARDR_def)

theorem callModel_never_raises_witness:
  "create failing_client (length (requests io_start)) = Throws ''timeout''
   \<and> callModel (Some failing_client) MODELS_cheap 600 io_start =
       Inr (''[Error calling google/gemini-2.0-flash-001: timeout]'',
            \<lparr> requests = [\<lparr> req_model = MODELS_cheap, max_tokens = 600, stream = False \<rparr>], sections = [] \<rparr>)
   \<and> create_stream failing_client (length (requests io_start)) = StreamThrows ''timeout''
   \<and> fst (projr (callModelStreaming (Some failing_client) MODELS_cheap 600 io_start)) =
       ''[Error calling google/gemini-2.0-flash-001: timeout]''"
proof -
  have h: "create failing_client (length (requests io_start)) = Throws ''timeout''"
    and hs: "create_stream failing_client (length (requests io_start)) = StreamThrows ''timeout''"
    by (simp_all add: failing_client_def)
  from callModel_never_raises [where c = failing_client and m = MODELS_cheap and k = 600
      and w = io_start and message = "''timeout''"] h hs
  obtain w' w'' where
    "callModel (Some failing_client) MODELS_cheap 600 io_start =
       Inr (''[Error calling '' @ MODELS_cheap @ '': '' @ ''timeout'' @ '']'', w')"
    "callModelStreaming (Some failing_client) MODELS_cheap 600 io_start =
       Inr (''[Error calling '' @ MODELS_cheap @ '': '' @ ''timeout'' @ '']'', w'')"
    by blast
  then show ?thesis using h hs
    by (simp add: MODELS_cheap_def callModel_def getOpenAI_def callModel_with_def io_start_def)
qed

subsection \<open>Unknown branch names\<close>

lemma branchConfigs_Undefined:
  "name \<notin> set registry_names \<Longrightarrow> name \<notin> set Object_prototype_names \<Longrightarrow> branchConfigs name = Undefined"
  by (simp add: branchConfigs_def registry_names_def)

lemma branchPromises_unknown:
  "(\<And>n. n \<in> set names \<Longrightarrow> branchConfigs n = Undefined) \<Longrightarrow>
   branchPromises E names sp w = (map (\<lambda>n. None) names, sp, w)"
  by (induction names) simp_all

lemma map_filter_all_None: "List.map_filter (\<lambda>r. r) (map (\<lambda>n. None) names) = []"
  by (induction names) (simp_all add: List.map_filter_simps)

lemma stageC_uncertainty:
  "uncertaintyScore (fst (stageC_Verification E outputs sp w)) =
     js_half (js_add (Num (reported_uncertainty
        (parseJsonFromResponse (JSON_parse E)
           (fst (callModel_with (openai E) MODELS_cheap 600
              (snd (callModel_with (openai E) MODELS_cheap 600
                 (logSection ''STAGE C: Verification Layer & Uncertainty Engine'' w))))))))
       (js_sub (Num 1) (avgConfidence outputs)))"
  by (simp add: stageC_Verification_def verification_result_def Let_def split: prod.splits)

text \<open>
  Claim C10. When the budget's branches are not empty (so the fast path is not taken) and
  none of the names has a configuration, Stage B returns no branch output, and the
  verification that follows divides \<open>0\<close> by \<open>0\<close>: its \<open>uncertaintyScore\<close> is \<open>NaN\<close>, which
  is not a value in \<open>[0,1]\<close>. (A name that \<open>Object.prototype\<close> defines, such as
  \<open>constructor\<close>, does have a truthy lookup and is run; the names here are outside those
  too.)
\<close>

theorem unknown_branches_give_NaN:
  assumes "branches bud \<noteq> []"
    and "\<forall>name \<in> set (branches bud). name \<notin> set registry_names \<and> name \<notin> set Object_prototype_names"
  shows "fst (stageB_DendriticBranches E bud sp w) = []
         \<and> uncertaintyScore (fst (stageC_Verification E (fst (stageB_DendriticBranches E bud sp w)) sp' w')) = NaN
         \<and> \<not> in_unit_interval
              (uncertaintyScore (fst (stageC_Verification E (fst (stageB_DendriticBranches E bud sp w)) sp' w')))"
proof -
  have "\<And>n. n \<in> set (branches bud) \<Longrightarrow> branchConfigs n = Undefined"
    using assms(2) by (simp add: branchConfigs_Undefined)
  then have "branchPromises E (branches bud) sp (logSection ''STAGE B: Dendritic Branch Network'' w)
      = (map (\<lambda>n. None) (branches bud), sp, logSection ''STAGE B: Dendritic Branch Network'' w)"
    by (rule branchPromises_unknown)
  then have empty: "fst (stageB_DendriticBranches E bud sp w) = []"
    by (simp add: stageB_DendriticBranches_def map_filter_all_None)
  have "uncertaintyScore (fst (stageC_Verification E [] sp' w')) = NaN"
    by (simp add: stageC_uncertainty avgConfidence_def js_sub_def js_add_def js_half_def)
  then show ?thesis
    using empty by (simp add: in_unit_interval_def)
qed

lemmas run_defs = final_state_def run_pipeline_def reasoning_stages_def first_pass_def
  stage0_TaskProfiler_def profile_budget_def or_num_def or_obj_def tier_ceiling_def tier_chief_def
  stageA_StructuredDecomposition_def stageB_DendriticBranches_def branchConfigs_def
  Object_prototype_names_def config_model_def branch_output_def push_output_def push_entry_def
  stageC_Verification_def verification_result_def avgConfidence_def reported_uncertainty_def
  scores_map_def js_half_def js_add_def js_sub_def js_less_def stageD_AdaptiveRecurrence_def
  is_weak_def branch_score_def refine_output_def UNCERTAINTY_THRESHOLD_def MIN_BRANCH_SCORE_def
  fresh_scratchpad_def stageFinal_GrandSynthesis_def handleConversation_def
  callModelStreaming_with_def List.map_filter_def empty_payload_def recurrence_loop.simps

theorem unknown_branches_give_NaN_witness:
  "branches (fst (stage0_TaskProfiler (scripted_env reply_unknown_branch payload_unknown_branch []) TierHigh io_start))
     = [''intuition'']
   \<and> map_option branchOutputs (final_state (scripted_env reply_unknown_branch payload_unknown_branch []) ''q'' TierHigh)
     = Some []
   \<and> map_option (uncertaintyScore \<circ> verification)
       (final_state (scripted_env reply_unknown_branch payload_unknown_branch []) ''q'' TierHigh) = Some NaN
   \<and> fst (stageB_DendriticBranches (scripted_env reply_unknown_branch payload_unknown_branch [])
        (fst (stage0_TaskProfiler (scripted_env reply_unknown_branch payload_unknown_branch []) TierHigh io_start))
        fresh_scratchpad io_start) = []"
proof -
  have b: "branches (fst (stage0_TaskProfiler (scripted_env reply_unknown_branch payload_unknown_branch []) TierHigh io_start))
     = [''intuition'']"
    by (simp add: stage0_TaskProfiler_def parse_defs profile_budget_def or_obj_def
        reply_unknown_branch_def payload_unknown_branch_def empty_payload_def)
  have h1: "branches (fst (stage0_TaskProfiler (scripted_env reply_unknown_branch payload_unknown_branch []) TierHigh io_start)) \<noteq> []"
    by (simp add: b)
  have h2: "\<forall>name \<in> set (branches (fst (stage0_TaskProfiler (scripted_env reply_unknown_branch payload_unknown_branch []) TierHigh io_start))).
      name \<notin> set registry_names \<and> name \<notin> set Object_prototype_names"
    by (simp add: b registry_names_def Object_prototype_names_def)
  have run: "map_option branchOutputs (final_state (scripted_env reply_unknown_branch payload_unknown_branch []) ''q'' TierHigh)
     = Some []
   \<and> map_option (uncertaintyScore \<circ> verification)
       (final_state (scripted_env reply_unknown_branch payload_unknown_branch []) ''q'' TierHigh) = Some NaN"
    by (simp add: run_defs parse_defs reply_unknown_branch_def payload_unknown_branch_def)
  from unknown_branches_give_NaN [OF h1 h2] b run show ?thesis by simp
qed

subsection \<open>Weak branches and the blend, and the default on a zero\<close>

text \<open>
  \<open>includes_str\<close> is the substring test. Where the verifier's score is not an explicit
  \<open>0\<close>, a branch is weak exactly when its score (its own confidence, if there is no
  score) is below \<open>0.5\<close> or a weak point contains its name; and with no weak branch the
  controller stops without a request.
\<close>

lemma starts_with_iff: "starts_with s t \<longleftrightarrow> (\<exists>post. s = t @ post)"
  by (induction s t rule: starts_with.induct) auto

lemma includes_str_iff: "includes_str s t \<longleftrightarrow> (\<exists>pre post. s = pre @ t @ post)"
proof (induction s)
  case Nil
  show ?case by auto
next
  case (Cons x s)
  show ?case
  proof
    assume "includes_str (x # s) t"
    then consider "starts_with (x # s) t" | "includes_str s t" by auto
    then show "\<exists>pre post. x # s = pre @ t @ post"
    proof cases
      case 1
      then obtain post where "x # s = t @ post" using starts_with_iff by blast
      then have "x # s = [] @ t @ post" by simp
      then show ?thesis by blast
    next
      case 2
      then obtain pre post where "s = pre @ t @ post" using Cons.IH by blast
      then have "x # s = (x # pre) @ t @ post" by simp
      then show ?thesis by blast
    qed
  next
    assume "\<exists>pre post. x # s = pre @ t @ post"
    then obtain pre post where e: "x # s = pre @ t @ post" by blast
    show "includes_str (x # s) t"
    proof (cases pre)
      case Nil
      then have "starts_with (x # s) t" using e starts_with_iff by auto
      then show ?thesis by simp
    next
      case (Cons y pre')
      then have "s = pre' @ t @ post" using e by simp
      then have "includes_str s t" using Cons.IH by blast
      then show ?thesis by simp
    qed
  qed
qed

lemma is_weak_nonzero_score:
  "branchScores v (branchName b) \<noteq> Some 0 \<Longrightarrow>
   is_weak v b \<longleftrightarrow>
     (case branchScores v (branchName b) of None \<Rightarrow> confidence b | Some s \<Rightarrow> s) < 1 / 2
     \<or> (\<exists>wp \<in> set (weakPoints v). \<exists>pre post. wp = pre @ branchName b @ post)"
  by (auto simp: is_weak_def branch_score_def or_num_def MIN_BRANCH_SCORE_def list_ex_iff
      includes_str_iff split: option.splits)

lemma stageD_no_weak_branch_stops:
  "filter (is_weak v) outputs = [] \<Longrightarrow>
   stageD_AdaptiveRecurrence E outputs sp v bud k w =
     (\<lparr> shouldRecur = False, updatedBranches = outputs \<rparr>, sp,
      logSection ''STAGE D: Adaptive Recurrence Pass'' w)"
  by (simp add: stageD_AdaptiveRecurrence_def Let_def)

text \<open>
  Over a non-empty collection the \<open>uncertaintyScore\<close> is the mean of the reported
  uncertainty and one minus the mean confidence, where the reported uncertainty is
  \<open>0.5\<close> if the response does not parse, has no such field, or reports \<open>0\<close>.
\<close>

lemma stageC_blend:
  "outputs \<noteq> [] \<Longrightarrow>
   \<exists>csParsed. uncertaintyScore (fst (stageC_Verification E outputs sp w)) =
     Num ((reported_uncertainty csParsed
           + (1 - sum_list (map confidence outputs) / of_nat (length outputs))) / 2)"
  by (auto simp: stageC_uncertainty avgConfidence_def js_sub_def js_add_def js_half_def)

lemma reported_uncertainty_cases:
  "reported_uncertainty None = 1 / 2"
  "p_uncertainty p = None \<Longrightarrow> reported_uncertainty (Some p) = 1 / 2"
  "p_uncertainty p = Some u \<Longrightarrow> u \<noteq> 0 \<Longrightarrow> reported_uncertainty (Some p) = u"
  "p_uncertainty p = Some 0 \<Longrightarrow> reported_uncertainty (Some p) = 1 / 2"
  by (simp_all add: reported_uncertainty_def or_num_def)

text \<open>
  Claim C4 at a verifier that scores the logic branch \<open>0\<close>: the score read by the
  controller is the branch's own confidence \<open>0.9\<close>, since \<open>0 || b.confidence\<close> takes the
  right operand; no weak point names the branch, so it is not classified as weak, and the
  controller stops without a request although the explicit score is below \<open>0.5\<close>.
\<close>

theorem explicit_zero_score_not_weak:
  "branchScores zero_verdict (branchName logic_output) = Some 0
   \<and> branch_score zero_verdict logic_output = 9 / 10
   \<and> is_weak zero_verdict logic_output = False
   \<and> shouldRecur (fst (stageD_AdaptiveRecurrence (scripted_env reply_zero_verdict payload_zero_verdict [])
        [logic_output] fresh_scratchpad zero_verdict
        (profile_budget (Some payload_zero_verdict) TierHigh) 0 io_start)) = False
   \<and> requests (snd (snd (stageD_AdaptiveRecurrence (scripted_env reply_zero_verdict payload_zero_verdict [])
        [logic_output] fresh_scratchpad zero_verdict
        (profile_budget (Some payload_zero_verdict) TierHigh) 0 io_start))) = []"
  by (simp add: zero_verdict_def logic_output_def run_defs parse_defs payload_zero_verdict_def)

text \<open>
  Claim C5 at a consistency response that parses and reports the uncertainty \<open>0\<close>: with
  one branch of confidence \<open>0.9\<close> the engine returns \<open>(0.5 + (1 - 0.9)) / 2 = 0.3\<close>,
  since \<open>0 || 0.5\<close> is \<open>0.5\<close>; the blend of the reported value is
  \<open>(0 + (1 - 0.9)) / 2 = 0.05\<close>.
\<close>

theorem zero_uncertainty_replaced:
  "p_uncertainty payload_zero_verdict = Some 0
   \<and> parseJsonFromResponse (JSON_parse (scripted_env reply_zero_verdict payload_zero_verdict []))
        reply_zero_verdict = Some payload_zero_verdict
   \<and> avgConfidence [logic_output] = Num (9 / 10)
   \<and> uncertaintyScore (fst (stageC_Verification (scripted_env reply_zero_verdict payload_zero_verdict [])
        [logic_output] fresh_scratchpad io_start)) = Num (3 / 10)
   \<and> js_half (js_add (Num 0) (js_sub (Num 1) (avgConfidence [logic_output]))) = Num (1 / 20)"
  by (simp add: logic_output_def run_defs parse_defs payload_zero_verdict_def reply_zero_verdict_def)

subsection \<open>Response Interpreter\<close>

lemma upto_last_close_split:
  "CHR ''}'' \<notin> set post \<Longrightarrow> upto_last_close (mid @ CHR ''}'' # post) = mid @ [CHR ''}'']"
proof -
  assume "CHR ''}'' \<notin> set post"
  then have "dropWhile (\<lambda>c. c \<noteq> CHR ''}'') (rev post @ CHR ''}'' # rev mid) = CHR ''}'' # rev mid"
    by (auto simp: dropWhile_append3)
  then show ?thesis by (simp add: upto_last_close_def)
qed

lemma match_braces_split:
  assumes "CHR ''{'' \<notin> set pre" and "CHR ''}'' \<notin> set post"
  shows "match_braces (pre @ CHR ''{'' # mid @ CHR ''}'' # post) = Some (CHR ''{'' # mid @ [CHR ''}''])"
proof -
  have "dropWhile (\<lambda>c. c \<noteq> CHR ''{'') (pre @ CHR ''{'' # mid @ CHR ''}'' # post)
          = CHR ''{'' # mid @ CHR ''}'' # post"
    using assms(1) by (auto simp: dropWhile_append3)
  then show ?thesis
    using assms(2) by (simp add: match_braces_def upto_last_close_split)
qed

lemma match_braces_Some_split:
  assumes "match_braces response = Some r"
  shows "\<exists>pre mid post. response = pre @ CHR ''{'' # mid @ CHR ''}'' # post"
proof -
  obtain c rest where d: "dropWhile (\<lambda>c. c \<noteq> CHR ''{'') response = c # rest"
    and close: "CHR ''}'' \<in> set rest"
    using assms by (auto simp: match_braces_def split: list.splits if_splits)
  from d have "c = CHR ''{''"
    using hd_dropWhile [of "\<lambda>c. c \<noteq> CHR ''{''" response] by simp
  moreover have "response = takeWhile (\<lambda>c. c \<noteq> CHR ''{'') response @ c # rest"
    using d takeWhile_dropWhile_id [of "\<lambda>c. c \<noteq> CHR ''{''" response] by simp
  moreover obtain mid post where "rest = mid @ CHR ''}'' # post"
    using close by (meson split_list)
  ultimately show ?thesis by blast
qed

text \<open>
  Claim C8, as the code has it. For every text, the interpreter takes the region from the
  first \<open>{\<close> to the last \<open>}\<close> of the text and hands it, unchanged, to \<open>JSON.parse\<close>; it
  returns what that gives, and none when the parse fails or when no \<open>{\<close> of the text has a
  \<open>}\<close> after it. Every text is in one of the two cases, so the interpreter never raises.
  In particular, a text whose region from the first \<open>{\<close> to the last \<open>}\<close> is valid JSON
  yields that parsed object.
\<close>

theorem parseJsonFromResponse_first_open_to_last_close:
  "(CHR ''{'' \<notin> set pre \<and> CHR ''}'' \<notin> set post \<longrightarrow>
      parseJsonFromResponse parse (pre @ CHR ''{'' # mid @ CHR ''}'' # post)
        = parse (CHR ''{'' # mid @ [CHR ''}'']))
   \<and> ((\<nexists>pre mid post. response = pre @ CHR ''{'' # mid @ CHR ''}'' # post) \<longrightarrow>
      parseJsonFromResponse parse response = None)
   \<and> (parseJsonFromResponse parse response = None
      \<or> (\<exists>pre mid post. response = pre @ CHR ''{'' # mid @ CHR ''}'' # post
            \<and> CHR ''{'' \<notin> set pre \<and> CHR ''}'' \<notin> set post
            \<and> parseJsonFromResponse parse response = parse (CHR ''{'' # mid @ [CHR ''}''])))"
proof (intro conjI impI)
  assume "CHR ''{'' \<notin> set pre \<and> CHR ''}'' \<notin> set post"
  then show "parseJsonFromResponse parse (pre @ CHR ''{'' # mid @ CHR ''}'' # post)
        = parse (CHR ''{'' # mid @ [CHR ''}''])"
    by (simp add: parseJsonFromResponse_def match_braces_split)
next
  assume none: "\<nexists>pre mid post. response = pre @ CHR ''{'' # mid @ CHR ''}'' # post"
  have "match_braces response = None"
  proof (cases "match_braces response")
    case (Some r)
    then show ?thesis using match_braces_Some_split none by blast
  qed simp
  then show "parseJsonFromResponse parse response = None"
    by (simp add: parseJsonFromResponse_def)
next
  show "parseJsonFromResponse parse response = None
      \<or> (\<exists>pre mid post. response = pre @ CHR ''{'' # mid @ CHR ''}'' # post
            \<and> CHR ''{'' \<notin> set pre \<and> CHR ''}'' \<notin> set post
            \<and> parseJsonFromResponse parse response = parse (CHR ''{'' # mid @ [CHR ''}'']))"
  proof (cases "match_braces response")
    case None
    then show ?thesis by (simp add: parseJsonFromResponse_def)
  next
    case (Some r)
    then obtain pre0 mid0 post0 where "response = pre0 @ CHR ''{'' # mid0 @ CHR ''}'' # post0"
      using match_braces_Some_split by blast
    then have o: "CHR ''{'' \<in> set response" and c: "CHR ''}'' \<in> set (CHR ''{'' # mid0 @ CHR ''}'' # post0)"
      by simp_all
    from o obtain pre rest where r: "response = pre @ CHR ''{'' # rest" and p: "CHR ''{'' \<notin> set pre"
      by (meson split_list_first)
    have "CHR ''}'' \<in> set rest"
    proof -
      have "dropWhile (\<lambda>c. c \<noteq> CHR ''{'') response = CHR ''{'' # rest"
        using r p by (auto simp: dropWhile_append3)
      then show ?thesis
        using Some by (auto simp: match_braces_def split: if_splits)
    qed
    then obtain mid post where m: "rest = mid @ CHR ''}'' # post" and q: "CHR ''}'' \<notin> set post"
      by (meson split_list_last)
    have "parseJsonFromResponse parse response = parse (CHR ''{'' # mid @ [CHR ''}''])"
      using r m p q by (simp add: parseJsonFromResponse_def match_braces_split)
    then show ?thesis using r m p q by blast
  qed
qed

theorem parseJsonFromResponse_first_open_to_last_close_witness:
  \<open>CHR ''{'' \<notin> set ''Result: '' \<and> CHR ''}'' \<notin> set '')''
   \<and> parseJsonFromResponse (JSON_parse (scripted_env reply_object payload_object []))
        (''Result: '' @ CHR ''{'' # ''"confidence":0.8'' @ CHR ''}'' # '')'') = Some payload_object
   \<and> parseJsonFromResponse (JSON_parse (scripted_env reply_object payload_object [])) ''no braces here'' = None\<close>
proof -
  have h: "CHR ''{'' \<notin> set ''Result: '' \<and> CHR ''}'' \<notin> set '')''" by simp
  have n: "\<nexists>pre mid post. ''no braces here'' = pre @ CHR ''{'' # mid @ CHR ''}'' # post"
  proof
    assume "\<exists>pre mid post. ''no braces here'' = pre @ CHR ''{'' # mid @ CHR ''}'' # post"
    then obtain pre mid post where "''no braces here'' = pre @ CHR ''{'' # mid @ CHR ''}'' # post"
      by blast
    then have "CHR ''{'' \<in> set ''no braces here''"
      by (metis in_set_conv_decomp)
    then show False by simp
  qed
  from parseJsonFromResponse_first_open_to_last_close
    [where pre = "''Result: ''" and post = "'')''" and response = "''no braces here''"
      and mid = \<open>''"confidence":0.8''\<close>
      and parse = "JSON_parse (scripted_env reply_object payload_object [])"] h n
  show ?thesis
    by (simp add: scripted_env_def reply_object_def)
qed

text \<open>
  Claim C8 as stated (the first balanced region is what is parsed) fails on a response
  that carries a valid object and then prose with braces: the first balanced region is
  the object, which parses, but the match runs on to the last \<open>}\<close>, the parse of that
  longer text fails, and the interpreter returns none.
\<close>

theorem first_balanced_region_counterexample:
  \<open>spec_first_balanced response_with_prose = Some ''{"confidence":0.8}''
   \<and> JSON_parse (scripted_env reply_object payload_object []) ''{"confidence":0.8}'' = Some payload_object
   \<and> spec_interpreter (JSON_parse (scripted_env reply_object payload_object [])) response_with_prose
       = Some payload_object
   \<and> match_braces response_with_prose = Some ''{"confidence":0.8} (see {1}''
   \<and> parseJsonFromResponse (JSON_parse (scripted_env reply_object payload_object [])) response_with_prose
       = None\<close>
  by (simp add: response_with_prose_def spec_interpreter_def parse_defs reply_object_def)

subsection \<open>The recurrence loop\<close>

lemma recurrence_loop_exit:
  "\<not> (c \<and> of_nat (recurrenceCount state) < allowedDepth (budget state)) \<Longrightarrow>
   recurrence_loop E c state w = (state, w)"
  by (subst recurrence_loop.simps) (rule if_not_P)

lemma recurrence_loop_stop:
  assumes "c \<and> of_nat (recurrenceCount state) < allowedDepth (budget state)"
    and "stageD_AdaptiveRecurrence E (branchOutputs state) (scratchpad state) (verification state)
           (budget state) (recurrenceCount state) w = (r, sp, w1)"
    and "\<not> shouldRecur r"
  shows "recurrence_loop E c state w =
           (state\<lparr> scratchpad := sp, branchOutputs := updatedBranches r \<rparr>, w1)"
  using assms by (subst recurrence_loop.simps) (simp add: recurrence_loop_exit)

lemma recurrence_loop_recur:
  assumes "c \<and> of_nat (recurrenceCount state) < allowedDepth (budget state)"
    and "stageD_AdaptiveRecurrence E (branchOutputs state) (scratchpad state) (verification state)
           (budget state) (recurrenceCount state) w = (r, sp, w1)"
    and "shouldRecur r"
    and "stageC_Verification E (updatedBranches r) sp w1 = (v, w2)"
  shows "recurrence_loop E c state w =
           recurrence_loop E True
             (state\<lparr> scratchpad := sp, branchOutputs := updatedBranches r,
                recurrenceCount := recurrenceCount state + 1, verification := v \<rparr>) w2"
  using assms by (subst recurrence_loop.simps) simp

lemma recurrence_loop_rule:
  assumes "P state w"
    and "\<And>st w r sp w1. P st w \<Longrightarrow> of_nat (recurrenceCount st) < allowedDepth (budget st) \<Longrightarrow>
          stageD_AdaptiveRecurrence E (branchOutputs st) (scratchpad st) (verification st)
            (budget st) (recurrenceCount st) w = (r, sp, w1) \<Longrightarrow> \<not> shouldRecur r \<Longrightarrow>
          P (st\<lparr> scratchpad := sp, branchOutputs := updatedBranches r \<rparr>) w1"
    and "\<And>st w r sp w1 v w2. P st w \<Longrightarrow> of_nat (recurrenceCount st) < allowedDepth (budget st) \<Longrightarrow>
          stageD_AdaptiveRecurrence E (branchOutputs st) (scratchpad st) (verification st)
            (budget st) (recurrenceCount st) w = (r, sp, w1) \<Longrightarrow> shouldRecur r \<Longrightarrow>
          stageC_Verification E (updatedBranches r) sp w1 = (v, w2) \<Longrightarrow>
          P (st\<lparr> scratchpad := sp, branchOutputs := updatedBranches r,
                recurrenceCount := recurrenceCount st + 1, verification := v \<rparr>) w2"
  shows "P (fst (recurrence_loop E c state w)) (snd (recurrence_loop E c state w))"
  using assms
proof (induction E c state w rule: recurrence_loop.induct)
  case (1 E c state w)
  show ?case
  proof (cases "c \<and> of_nat (recurrenceCount state) < allowedDepth (budget state)")
    case False
    then show ?thesis using "1.prems"(1) by (simp add: recurrence_loop_exit)
  next
    case True
    obtain r sp w1 where d: "stageD_AdaptiveRecurrence E (branchOutputs state) (scratchpad state)
        (verification state) (budget state) (recurrenceCount state) w = (r, sp, w1)"
      by (metis prod_cases3)
    show ?thesis
    proof (cases "shouldRecur r")
      case False
      have "P (state\<lparr> scratchpad := sp, branchOutputs := updatedBranches r \<rparr>) w1"
        using "1.prems"(2) [OF "1.prems"(1) _ d False] True by simp
      then show ?thesis
        using recurrence_loop_stop [OF True d False] by simp
    next
      case recur: True
      obtain v w2 where e: "stageC_Verification E (updatedBranches r) sp w1 = (v, w2)"
        by (cases "stageC_Verification E (updatedBranches r) sp w1")
      let ?next = "state\<lparr> scratchpad := sp, branchOutputs := updatedBranches r,
                recurrenceCount := recurrenceCount state + 1, verification := v \<rparr>"
      have step: "P ?next w2"
        using "1.prems"(3) [OF "1.prems"(1) _ d recur e] True by simp
      have "P (fst (recurrence_loop E True ?next w2)) (snd (recurrence_loop E True ?next w2))"
        using "1.IH"(1) [OF True refl d [symmetric] refl refl recur refl, of "(v, w2)" v w2]
          e step "1.prems"(2,3) by simp
      then show ?thesis
        using recurrence_loop_recur [OF True d recur e] by simp
    qed
  qed
qed


subsection \<open>What the stages log\<close>

lemma callModel_with_sections [simp]:
  "sections (snd (callModel_with c m k w)) = sections w"
  by (simp add: callModel_with_def)

lemma branchPromises_sections [simp]:
  "sections (snd (snd (branchPromises E names sp w))) = sections w"
proof (induction names arbitrary: sp w)
  case Nil
  show ?case by simp
next
  case (Cons name names)
  show ?case
  proof (cases "branchConfigs name = Undefined")
    case True
    then show ?thesis using Cons.IH [of sp w] by (simp add: case_prod_beta)
  next
    case False
    obtain response w1 where c: "callModel_with (openai E) (config_model (branchConfigs name)) 800 w = (response, w1)"
      by (cases "callModel_with (openai E) (config_model (branchConfigs name)) 800 w")
    have "sections w1 = sections w"
      using callModel_with_sections [of "openai E" "config_model (branchConfigs name)" 800 w] c by simp
    then show ?thesis
      using False c Cons.IH [of _ w1] by (simp add: Let_def case_prod_beta)
  qed
qed

lemma updatedBranchPromises_sections [simp]:
  "sections (snd (updatedBranchPromises E weak bs w)) = sections w"
proof (induction bs arbitrary: w)
  case Nil
  show ?case by simp
next
  case (Cons b bs)
  show ?case
  proof (cases "list_ex (\<lambda>wb. branchName wb = branchName b) weak")
    case False
    then show ?thesis using Cons.IH [of w] by (simp add: case_prod_beta)
  next
    case True
    obtain response w1 where c: "callModel_with (openai E)
        (if branchName b = ''code'' then MODELS_code else MODELS_cheap) 800 w = (response, w1)"
      by (cases "callModel_with (openai E) (if branchName b = ''code'' then MODELS_code else MODELS_cheap) 800 w")
    have "sections w1 = sections w"
      using callModel_with_sections [of "openai E" "if branchName b = ''code'' then MODELS_code else MODELS_cheap" 800 w] c
      by simp
    then show ?thesis
      using True c Cons.IH [of w1] by (simp add: Let_def case_prod_beta)
  qed
qed

lemma stage0_sections:
  "sections (snd (stage0_TaskProfiler E t w)) = sections w @ [''STAGE 0: Task Profiler & Budget Allocator'']"
  by (simp add: stage0_io)

lemma stageA_sections:
  "sections (snd (stageA_StructuredDecomposition E w)) = sections w @ [''STAGE A: Structured Decomposition Layer'']"
  by (simp add: stageA_StructuredDecomposition_def callModel_with_def logSection_def Let_def)

lemma stageB_sections:
  "sections (snd (snd (stageB_DendriticBranches E bud sp w))) = sections w @ [''STAGE B: Dendritic Branch Network'']"
proof -
  have "sections (snd (snd (branchPromises E (branches bud) sp (logSection ''STAGE B: Dendritic Branch Network'' w))))
        = sections w @ [''STAGE B: Dendritic Branch Network'']"
    by (simp add: logSection_def)
  then show ?thesis
    by (simp add: stageB_DendriticBranches_def Let_def case_prod_beta)
qed

lemma stageC_sections:
  "sections (snd (stageC_Verification E outputs sp w)) = sections w @ [STAGE_C]"
  by (simp add: stageC_Verification_def callModel_with_def logSection_def Let_def STAGE_C_def)

lemma stageD_sections:
  "sections (snd (snd (stageD_AdaptiveRecurrence E outputs sp v bud k w)))
     = sections w @ [''STAGE D: Adaptive Recurrence Pass'']"
proof -
  have "\<And>weak w1. sections (snd (updatedBranchPromises E weak outputs
          (snd (callModel_with (openai E) MODELS_cheap 400 w1)))) = sections w1"
    by simp
  then show ?thesis
    by (simp add: stageD_AdaptiveRecurrence_def logSection_def Let_def case_prod_beta)
qed

lemma stageD_depth_exhausted:
  "allowedDepth bud \<le> of_nat k \<Longrightarrow>
   \<not> shouldRecur (fst (stageD_AdaptiveRecurrence E outputs sp v bud k w))"
  by (simp add: stageD_AdaptiveRecurrence_def Let_def)

lemma stageD_scratchpad [simp]:
  "fst (snd (stageD_AdaptiveRecurrence E outputs sp v bud k w)) = sp"
  by (simp add: stageD_AdaptiveRecurrence_def Let_def case_prod_beta)



text \<open>The state and the effects at the entry of the loop, in a run off the fast path.\<close>

lemma first_pass_entry:
  "recurrenceCount (fst (first_pass E prompt t bud w1)) = 0
   \<and> budget (fst (first_pass E prompt t bud w1)) = bud
   \<and> branchOutputs (fst (first_pass E prompt t bud w1))
       = fst (stageB_DendriticBranches E bud fresh_scratchpad (snd (stageA_StructuredDecomposition E w1)))
   \<and> scratchpad (fst (first_pass E prompt t bud w1))
       = fst (snd (stageB_DendriticBranches E bud fresh_scratchpad (snd (stageA_StructuredDecomposition E w1))))
   \<and> verification (fst (first_pass E prompt t bud w1))
       = fst (stageC_Verification E (branchOutputs (fst (first_pass E prompt t bud w1)))
               (scratchpad (fst (first_pass E prompt t bud w1)))
               (snd (snd (stageB_DendriticBranches E bud fresh_scratchpad (snd (stageA_StructuredDecomposition E w1))))))
   \<and> sections (snd (first_pass E prompt t bud w1))
       = sections w1 @ [''STAGE A: Structured Decomposition Layer'', ''STAGE B: Dendritic Branch Network'', STAGE_C]"
  by (simp add: first_pass_def case_prod_beta Let_def stageC_sections stageB_sections stageA_sections)

lemma final_state_loop:
  assumes "final_state E prompt t = Some st"
  shows "st = (fst (recurrence_loop E True
                 (fst (first_pass E prompt t (fst (stage0_TaskProfiler E t io_start)) (snd (stage0_TaskProfiler E t io_start))))
                 (snd (first_pass E prompt t (fst (stage0_TaskProfiler E t io_start)) (snd (stage0_TaskProfiler E t io_start))))))
              \<lparr> finalResponse := fst (fst (run_pipeline E prompt t)) \<rparr>
         \<and> sections (snd (run_pipeline E prompt t))
             = sections (snd (recurrence_loop E True
                 (fst (first_pass E prompt t (fst (stage0_TaskProfiler E t io_start)) (snd (stage0_TaskProfiler E t io_start))))
                 (snd (first_pass E prompt t (fst (stage0_TaskProfiler E t io_start)) (snd (stage0_TaskProfiler E t io_start))))))
               @ [''FINAL STAGE: Grand Synthesizer'']
         \<and> \<not> (taskType (fst (stage0_TaskProfiler E t io_start)) = ''conversation''
               \<or> branches (fst (stage0_TaskProfiler E t io_start)) = [])"
proof -
  let ?b = "fst (stage0_TaskProfiler E t io_start)"
  have slow: "\<not> (taskType ?b = ''conversation'' \<or> length (branches ?b) = 0)"
    using assms by (auto simp: final_state_def run_pipeline_def handleConversation_def
        case_prod_beta Let_def split: if_splits)
  then show ?thesis
    using assms
    by (simp add: final_state_def run_pipeline_def reasoning_stages_def stageFinal_GrandSynthesis_def
        callModelStreaming_with_def logSection_def case_prod_beta Let_def)
qed

text \<open>
  Claim C2, as the code has it. The loop is a total function: it terminates, given that
  every gateway call returns. It leaves the budget alone; \<open>recurrenceCount\<close> never
  decreases, and it grows by exactly one with each recurring pass, that is, with each
  verification the loop re-runs; in a run it starts at \<open>0\<close>, so at the end it is the
  number of verification passes less the first. When \<open>allowedDepth\<close> is a natural
  number, \<open>recurrenceCount \<le> allowedDepth\<close> holds after the loop if it held before,
  and so at the end of every run. When \<open>recurrenceCount \<ge> allowedDepth\<close> the controller
  returns \<open>shouldRecur = false\<close>, whatever the verification result.
\<close>

theorem recurrence_count_bounded:
  "budget (fst (recurrence_loop E c state w)) = budget state
   \<and> recurrenceCount state \<le> recurrenceCount (fst (recurrence_loop E c state w))
   \<and> count_list (sections (snd (recurrence_loop E c state w))) STAGE_C
       = count_list (sections w) STAGE_C
         + (recurrenceCount (fst (recurrence_loop E c state w)) - recurrenceCount state)
   \<and> (allowedDepth (budget state) = of_nat n \<and> recurrenceCount state \<le> n \<longrightarrow>
        recurrenceCount (fst (recurrence_loop E c state w)) \<le> n)
   \<and> (allowedDepth bud \<le> of_nat k \<longrightarrow>
        \<not> shouldRecur (fst (stageD_AdaptiveRecurrence E outputs sp v bud k w')))
   \<and> (final_state E prompt t = Some st \<longrightarrow>
        recurrenceCount st + 1 = count_list (sections (snd (run_pipeline E prompt t))) STAGE_C
        \<and> (allowedDepth (budget st) = of_nat n \<longrightarrow> recurrenceCount st \<le> n))"
proof -
  define Inv where "Inv = (\<lambda>(s0::ARDRState) (w0::io) (s::ARDRState) (x::io).
      budget s = budget s0 \<and> recurrenceCount s0 \<le> recurrenceCount s
      \<and> count_list (sections x) STAGE_C
          = count_list (sections w0) STAGE_C + (recurrenceCount s - recurrenceCount s0)
      \<and> (\<forall>m. allowedDepth (budget s0) = of_nat m \<and> recurrenceCount s0 \<le> m \<longrightarrow> recurrenceCount s \<le> m))"
  have D_no_C: "\<And>outputs sp v bud k x. count_list (sections (snd (snd
        (stageD_AdaptiveRecurrence E outputs sp v bud k x)))) STAGE_C = count_list (sections x) STAGE_C"
    by (simp add: stageD_sections STAGE_C_def)
  have loop: "Inv s0 w0 (fst (recurrence_loop E c s0 w0)) (snd (recurrence_loop E c s0 w0))"
    for s0 w0 c
  proof (rule recurrence_loop_rule [where P = "Inv s0 w0"])
    show "Inv s0 w0 s0 w0" by (simp add: Inv_def)
  next
    fix s x r sp w1
    assume i: "Inv s0 w0 s x"
      and d: "stageD_AdaptiveRecurrence E (branchOutputs s) (scratchpad s) (verification s)
                (budget s) (recurrenceCount s) x = (r, sp, w1)"
    have "count_list (sections w1) STAGE_C = count_list (sections x) STAGE_C"
      using D_no_C [of "branchOutputs s" "scratchpad s" "verification s" "budget s" "recurrenceCount s" x] d
      by simp
    then show "Inv s0 w0 (s\<lparr> scratchpad := sp, branchOutputs := updatedBranches r \<rparr>) w1"
      using i by (simp add: Inv_def)
  next
    fix s x r sp w1 v w2
    assume i: "Inv s0 w0 s x"
      and lt: "of_nat (recurrenceCount s) < allowedDepth (budget s)"
      and d: "stageD_AdaptiveRecurrence E (branchOutputs s) (scratchpad s) (verification s)
                (budget s) (recurrenceCount s) x = (r, sp, w1)"
      and e: "stageC_Verification E (updatedBranches r) sp w1 = (v, w2)"
    have c1: "count_list (sections w1) STAGE_C = count_list (sections x) STAGE_C"
      using D_no_C [of "branchOutputs s" "scratchpad s" "verification s" "budget s" "recurrenceCount s" x] d
      by simp
    have c2: "count_list (sections w2) STAGE_C = count_list (sections w1) STAGE_C + 1"
      using stageC_sections [of E "updatedBranches r" sp w1] e by simp
    have bound: "recurrenceCount s + 1 \<le> m"
      if "allowedDepth (budget s0) = of_nat m" "recurrenceCount s0 \<le> m" for m
    proof -
      have "(of_nat (recurrenceCount s) :: rat) < of_nat m"
        using lt i that by (simp add: Inv_def)
      then show ?thesis by simp
    qed
    from i have i1: "budget s = budget s0" and i2: "recurrenceCount s0 \<le> recurrenceCount s"
      and i3: "count_list (sections x) STAGE_C
          = count_list (sections w0) STAGE_C + (recurrenceCount s - recurrenceCount s0)"
      by (simp_all add: Inv_def)
    have n3: "count_list (sections w2) STAGE_C
          = count_list (sections w0) STAGE_C + (recurrenceCount s + 1 - recurrenceCount s0)"
      using i2 i3 c1 c2 by arith
    show "Inv s0 w0 (s\<lparr> scratchpad := sp, branchOutputs := updatedBranches r,
                recurrenceCount := recurrenceCount s + 1, verification := v \<rparr>) w2"
      using i1 i2 n3 bound by (simp add: Inv_def)
  qed
  have a: "budget (fst (recurrence_loop E c state w)) = budget state
   \<and> recurrenceCount state \<le> recurrenceCount (fst (recurrence_loop E c state w))
   \<and> count_list (sections (snd (recurrence_loop E c state w))) STAGE_C
       = count_list (sections w) STAGE_C
         + (recurrenceCount (fst (recurrence_loop E c state w)) - recurrenceCount state)
   \<and> (allowedDepth (budget state) = of_nat n \<and> recurrenceCount state \<le> n \<longrightarrow>
        recurrenceCount (fst (recurrence_loop E c state w)) \<le> n)"
    using loop [of state w c] by (simp add: Inv_def)
  have b: "allowedDepth bud \<le> of_nat k \<longrightarrow>
        \<not> shouldRecur (fst (stageD_AdaptiveRecurrence E outputs sp v bud k w'))"
    by (simp add: stageD_depth_exhausted)
  have r: "final_state E prompt t = Some st \<longrightarrow>
        recurrenceCount st + 1 = count_list (sections (snd (run_pipeline E prompt t))) STAGE_C
        \<and> (allowedDepth (budget st) = of_nat n \<longrightarrow> recurrenceCount st \<le> n)"
  proof
    assume "final_state E prompt t = Some st"
    then have fsl: "st = (fst (recurrence_loop E True
                 (fst (first_pass E prompt t (fst (stage0_TaskProfiler E t io_start)) (snd (stage0_TaskProfiler E t io_start))))
                 (snd (first_pass E prompt t (fst (stage0_TaskProfiler E t io_start)) (snd (stage0_TaskProfiler E t io_start))))))
              \<lparr> finalResponse := fst (fst (run_pipeline E prompt t)) \<rparr>
         \<and> sections (snd (run_pipeline E prompt t))
             = sections (snd (recurrence_loop E True
                 (fst (first_pass E prompt t (fst (stage0_TaskProfiler E t io_start)) (snd (stage0_TaskProfiler E t io_start))))
                 (snd (first_pass E prompt t (fst (stage0_TaskProfiler E t io_start)) (snd (stage0_TaskProfiler E t io_start))))))
               @ [''FINAL STAGE: Grand Synthesizer'']"
      using final_state_loop by blast
    define s0 where "s0 = fst (first_pass E prompt t (fst (stage0_TaskProfiler E t io_start)) (snd (stage0_TaskProfiler E t io_start)))"
    define w0 where "w0 = snd (first_pass E prompt t (fst (stage0_TaskProfiler E t io_start)) (snd (stage0_TaskProfiler E t io_start)))"
    have st: "st = (fst (recurrence_loop E True s0 w0))\<lparr> finalResponse := fst (fst (run_pipeline E prompt t)) \<rparr>"
      and f: "sections (snd (run_pipeline E prompt t))
                = sections (snd (recurrence_loop E True s0 w0)) @ [''FINAL STAGE: Grand Synthesizer'']"
      using fsl by (simp_all add: s0_def w0_def)
    have z: "recurrenceCount s0 = 0"
      and s: "sections w0 = [''STAGE 0: Task Profiler & Budget Allocator'',
                ''STAGE A: Structured Decomposition Layer'', ''STAGE B: Dendritic Branch Network'', STAGE_C]"
      by (simp_all add: s0_def w0_def first_pass_entry stage0_sections io_start_def)
    have one: "count_list (sections w0) STAGE_C = 1"
      by (simp add: s) (simp add: STAGE_C_def)
    have "count_list (sections (snd (run_pipeline E prompt t))) STAGE_C
            = count_list (sections (snd (recurrence_loop E True s0 w0))) STAGE_C"
      by (simp add: f) (simp add: STAGE_C_def)
    then show "recurrenceCount st + 1 = count_list (sections (snd (run_pipeline E prompt t))) STAGE_C
        \<and> (allowedDepth (budget st) = of_nat n \<longrightarrow> recurrenceCount st \<le> n)"
      using loop [of s0 w0 True] one z by (simp add: Inv_def st)
  qed
  from a b r show ?thesis by blast
qed


theorem recurrence_count_bounded_witness:
  "final_state (scripted_env reply_hypothesis payload_hypothesis []) ''q'' TierLow \<noteq> None
   \<and> map_option (allowedDepth \<circ> budget)
        (final_state (scripted_env reply_hypothesis payload_hypothesis []) ''q'' TierLow) = Some (of_nat 1)
   \<and> count_list (sections (snd (run_pipeline (scripted_env reply_hypothesis payload_hypothesis []) ''q'' TierLow)))
        STAGE_C = 2
   \<and> map_option recurrenceCount
        (final_state (scripted_env reply_hypothesis payload_hypothesis []) ''q'' TierLow) = Some 1"
proof -
  let ?E = "scripted_env reply_hypothesis payload_hypothesis []"
  have ne: "final_state ?E ''q'' TierLow \<noteq> None"
    by (simp add: run_defs parse_defs reply_hypothesis_def payload_hypothesis_def)
  then obtain st where st: "final_state ?E ''q'' TierLow = Some st" by blast
  have d: "map_option (allowedDepth \<circ> budget) (final_state ?E ''q'' TierLow) = Some (of_nat 1)"
    by (simp add: run_defs parse_defs reply_hypothesis_def payload_hypothesis_def)
  have c: "count_list (sections (snd (run_pipeline ?E ''q'' TierLow))) STAGE_C = 2"
    by (simp add: run_defs parse_defs reply_hypothesis_def payload_hypothesis_def STAGE_C_def)
  from recurrence_count_bounded [where E = ?E and prompt = "''q''" and t = TierLow and st = st] st c
  have "recurrenceCount st = 1" by simp
  then show ?thesis using ne st d c by simp
qed

text \<open>
  Claim C2 as stated (\<open>recurrenceCount \<le> allowedDepth\<close> after the loop of every run) fails
  when the profiler's reply proposes the depth \<open>1.5\<close> at the high tier: the loop runs
  two recurring passes, since \<open>1 < 1.5\<close>, and ends with \<open>recurrenceCount = 2\<close>.
\<close>

theorem recurrence_count_exceeds_fractional_depth:
  "map_option (allowedDepth \<circ> budget)
     (final_state (scripted_env reply_fractional_depth payload_fractional_depth []) ''q'' TierHigh) = Some (3 / 2)
   \<and> map_option recurrenceCount
     (final_state (scripted_env reply_fractional_depth payload_fractional_depth []) ''q'' TierHigh) = Some 2
   \<and> \<not> (of_nat 2 \<le> (3 / 2 :: rat))"
  by (simp add: run_defs parse_defs reply_fractional_depth_def payload_fractional_depth_def)

subsection \<open>The scratchpad\<close>

lemma stamp_append:
  "stamp now k (xs @ ys) = stamp now k xs @ stamp now (k + length xs) ys"
  by (induction xs arbitrary: k) auto

lemma length_stamp [simp]: "length (stamp now k xs) = length xs"
  by (induction xs arbitrary: k) auto

lemma push_entry_entries:
  "entries (push_entry now name t c sp) = entries sp @ stamp now (length (entries sp)) [(name, t, c)]"
  by (simp add: push_entry_def)

lemma fold_push_entries:
  "entries (fold (push_entry now name t) cs sp)
     = entries sp @ stamp now (length (entries sp)) (map (\<lambda>c. (name, t, c)) cs)"
proof (induction cs arbitrary: sp)
  case Nil
  show ?case by simp
next
  case (Cons c cs)
  show ?case
    by (simp add: Cons.IH push_entry_entries)
qed

lemma push_output_entries:
  "entries (push_output now out sp) = entries sp @ stamp now (length (entries sp)) (entries_of out)"
  by (simp add: push_output_def fold_push_entries push_entry_entries entries_of_def)

lemma branchPromises_entries:
  "entries (fst (snd (branchPromises E names sp w)))
     = entries sp @ stamp (Date_now E) (length (entries sp))
         (concat (map entries_of (List.map_filter (\<lambda>r. r) (fst (branchPromises E names sp w)))))"
proof (induction names arbitrary: sp w)
  case Nil
  show ?case by (simp add: List.map_filter_simps)
next
  case (Cons name names)
  show ?case
  proof (cases "branchConfigs name = Undefined")
    case True
    then show ?thesis
      using Cons.IH [of sp w] by (simp add: case_prod_beta List.map_filter_simps)
  next
    case False
    then show ?thesis
      by (simp add: Let_def case_prod_beta List.map_filter_simps Cons.IH push_output_entries
          stamp_append)
  qed
qed

lemma stageB_entries:
  "entries (fst (snd (stageB_DendriticBranches E bud sp w)))
     = entries sp @ stamp (Date_now E) (length (entries sp))
         (concat (map entries_of (fst (stageB_DendriticBranches E bud sp w))))"
  using branchPromises_entries [of E "branches bud" sp "logSection ''STAGE B: Dendritic Branch Network'' w"]
  by (simp add: stageB_DendriticBranches_def Let_def case_prod_beta)

lemma recurrence_loop_scratchpad:
  "scratchpad (fst (recurrence_loop E c state w)) = scratchpad state"
proof (rule recurrence_loop_rule [where P = "\<lambda>s x. scratchpad s = scratchpad state"])
  show "scratchpad state = scratchpad state" by simp
next
  fix st :: ARDRState and x r sp w1
  assume "scratchpad st = scratchpad state"
    and "stageD_AdaptiveRecurrence E (branchOutputs st) (scratchpad st) (verification st)
           (budget st) (recurrenceCount st) x = (r, sp, w1)"
  then show "scratchpad (st\<lparr> scratchpad := sp, branchOutputs := updatedBranches r \<rparr>) = scratchpad state"
    using stageD_scratchpad [of E "branchOutputs st" "scratchpad st" "verification st" "budget st"
        "recurrenceCount st" x] by simp
next
  fix st :: ARDRState and x r sp w1 v w2
  assume "scratchpad st = scratchpad state"
    and "stageD_AdaptiveRecurrence E (branchOutputs st) (scratchpad st) (verification st)
           (budget st) (recurrenceCount st) x = (r, sp, w1)"
  then show "scratchpad (st\<lparr> scratchpad := sp, branchOutputs := updatedBranches r,
                recurrenceCount := recurrenceCount st + 1, verification := v \<rparr>) = scratchpad state"
    using stageD_scratchpad [of E "branchOutputs st" "scratchpad st" "verification st" "budget st"
        "recurrenceCount st" x] by simp
qed

text \<open>
  Claim C6, as the code has it. The entries log only grows, and only in Stage B: every
  initial branch invocation appends its notes and each of its hypotheses as distinct
  entries, tagged with the branch name and the reading of the clock, after the entries
  that are there. A recurrent pass (Stage D) returns the scratchpad as it received it, and
  so does the whole loop: at the end of a run the scratchpad is the one Stage B left.
\<close>

theorem scratchpad_append_only:
  "entries (fst (snd (stageB_DendriticBranches E bud sp w)))
     = entries sp @ stamp (Date_now E) (length (entries sp))
         (concat (map entries_of (fst (stageB_DendriticBranches E bud sp w))))
   \<and> fst (snd (stageD_AdaptiveRecurrence E outputs sp v bud k w)) = sp
   \<and> scratchpad (fst (recurrence_loop E c state w)) = scratchpad state
   \<and> (final_state E prompt t = Some st \<longrightarrow>
        scratchpad st = fst (snd (stageB_DendriticBranches E (fst (stage0_TaskProfiler E t io_start))
          fresh_scratchpad (snd (stageA_StructuredDecomposition E (snd (stage0_TaskProfiler E t io_start))))))
        \<and> entries (scratchpad st) = stamp (Date_now E) 0
          (concat (map entries_of (fst (stageB_DendriticBranches E (fst (stage0_TaskProfiler E t io_start))
          fresh_scratchpad (snd (stageA_StructuredDecomposition E (snd (stage0_TaskProfiler E t io_start)))))))))"
proof -
  have r: "final_state E prompt t = Some st \<longrightarrow>
        scratchpad st = fst (snd (stageB_DendriticBranches E (fst (stage0_TaskProfiler E t io_start))
          fresh_scratchpad (snd (stageA_StructuredDecomposition E (snd (stage0_TaskProfiler E t io_start))))))"
  proof
    assume "final_state E prompt t = Some st"
    then have "st = (fst (recurrence_loop E True
                 (fst (first_pass E prompt t (fst (stage0_TaskProfiler E t io_start)) (snd (stage0_TaskProfiler E t io_start))))
                 (snd (first_pass E prompt t (fst (stage0_TaskProfiler E t io_start)) (snd (stage0_TaskProfiler E t io_start))))))
              \<lparr> finalResponse := fst (fst (run_pipeline E prompt t)) \<rparr>"
      using final_state_loop by blast
    then show "scratchpad st = fst (snd (stageB_DendriticBranches E (fst (stage0_TaskProfiler E t io_start))
          fresh_scratchpad (snd (stageA_StructuredDecomposition E (snd (stage0_TaskProfiler E t io_start))))))"
      by (simp add: recurrence_loop_scratchpad first_pass_entry)
  qed
  have e: "entries (fst (snd (stageB_DendriticBranches E (fst (stage0_TaskProfiler E t io_start))
          fresh_scratchpad (snd (stageA_StructuredDecomposition E (snd (stage0_TaskProfiler E t io_start)))))))
      = stamp (Date_now E) 0
          (concat (map entries_of (fst (stageB_DendriticBranches E (fst (stage0_TaskProfiler E t io_start))
          fresh_scratchpad (snd (stageA_StructuredDecomposition E (snd (stage0_TaskProfiler E t io_start))))))))"
    by (simp add: stageB_entries fresh_scratchpad_def)
  show ?thesis
    using r e by (simp add: stageB_entries recurrence_loop_scratchpad)
qed

theorem scratchpad_append_only_witness:
  "final_state (scripted_env reply_hypothesis payload_hypothesis []) ''q'' TierLow \<noteq> None
   \<and> fst (stageB_DendriticBranches (scripted_env reply_hypothesis payload_hypothesis [])
        (fst (stage0_TaskProfiler (scripted_env reply_hypothesis payload_hypothesis []) TierLow io_start))
        fresh_scratchpad
        (snd (stageA_StructuredDecomposition (scripted_env reply_hypothesis payload_hypothesis [])
           (snd (stage0_TaskProfiler (scripted_env reply_hypothesis payload_hypothesis []) TierLow io_start)))))
      = [\<lparr> branchName = ''logic'', hypotheses = [''H''], artifacts = [], notes_text = ''N'',
            contradictions = [], confidence = 1 / 2 \<rparr>]
   \<and> map_option (entries \<circ> scratchpad)
        (final_state (scripted_env reply_hypothesis payload_hypothesis []) ''q'' TierLow)
      = Some [\<lparr> branch = ''logic'', timestamp = 1700000000000, content = ''N'', entryType = T_note \<rparr>,
              \<lparr> branch = ''logic'', timestamp = 1700000000001, content = ''H'', entryType = T_hypothesis \<rparr>]"
proof -
  let ?E = "scripted_env reply_hypothesis payload_hypothesis []"
  have ne: "final_state ?E ''q'' TierLow \<noteq> None"
    by (simp add: run_defs parse_defs reply_hypothesis_def payload_hypothesis_def)
  then obtain st where st: "final_state ?E ''q'' TierLow = Some st" by blast
  have b: "fst (stageB_DendriticBranches ?E (fst (stage0_TaskProfiler ?E TierLow io_start)) fresh_scratchpad
        (snd (stageA_StructuredDecomposition ?E (snd (stage0_TaskProfiler ?E TierLow io_start)))))
      = [\<lparr> branchName = ''logic'', hypotheses = [''H''], artifacts = [], notes_text = ''N'',
            contradictions = [], confidence = 1 / 2 \<rparr>]"
    by (simp add: run_defs parse_defs reply_hypothesis_def payload_hypothesis_def)
  from scratchpad_append_only [where E = ?E and prompt = "''q''" and t = TierLow and st = st] st
  have "entries (scratchpad st) = stamp (Date_now ?E) 0
          (concat (map entries_of (fst (stageB_DendriticBranches ?E (fst (stage0_TaskProfiler ?E TierLow io_start))
          fresh_scratchpad (snd (stageA_StructuredDecomposition ?E (snd (stage0_TaskProfiler ?E TierLow io_start))))))))"
    by blast
  then have "entries (scratchpad st)
      = [\<lparr> branch = ''logic'', timestamp = 1700000000000, content = ''N'', entryType = T_note \<rparr>,
         \<lparr> branch = ''logic'', timestamp = 1700000000001, content = ''H'', entryType = T_hypothesis \<rparr>]"
    by (simp add: b entries_of_def) (simp add: scripted_env_def)
  then show ?thesis using ne st b by simp
qed

text \<open>
  Claim C6 as stated (every branch invocation, recurrent ones too, writes its notes and
  hypotheses to the log) fails on a run with one recurring pass: the logic branch is
  invoked in Stage B and again in Stage D (the ninth request of the run), each time with
  the notes \<open>N\<close> and the hypothesis \<open>H\<close>, and the log ends with the two entries of the
  first invocation only.
\<close>

theorem recurrent_pass_writes_nothing:
  "map_option recurrenceCount
     (final_state (scripted_env reply_hypothesis payload_hypothesis []) ''q'' TierLow) = Some 1
   \<and> requests (snd (run_pipeline (scripted_env reply_hypothesis payload_hypothesis []) ''q'' TierLow)) ! 8
       = \<lparr> req_model = MODELS_cheap, max_tokens = 800, stream = False \<rparr>
   \<and> map_option (map (\<lambda>b. (branchName b, notes_text b, hypotheses b)) \<circ> branchOutputs)
       (final_state (scripted_env reply_hypothesis payload_hypothesis []) ''q'' TierLow)
       = Some [(''logic'', ''N'', [''H''])]
   \<and> map_option (map (\<lambda>e. (branch e, entryType e, content e)) \<circ> entries \<circ> scratchpad)
       (final_state (scripted_env reply_hypothesis payload_hypothesis []) ''q'' TierLow)
       = Some [(''logic'', T_note, ''N''), (''logic'', T_hypothesis, ''H'')]"
  by (simp add: run_defs parse_defs reply_hypothesis_def payload_hypothesis_def MODELS_cheap_def)


subsection \<open>Ranges of confidence and uncertainty\<close>

lemma callModel_with_response:
  "callModel_with (openai E) m k w =
     (response_at E (length (requests w)) m,
      w\<lparr> requests := requests w @ [\<lparr> req_model = m, max_tokens = k, stream = False \<rparr>] \<rparr>)"
  by (simp add: callModel_with_def response_at_def)











lemma branchPromises_known:
  assumes "branchConfigs name \<noteq> Undefined"
  shows "branchPromises E (name # names) sp w =
     (Some (branch_output name (response_at E (length (requests w)) (config_model (branchConfigs name)))
              (parseJsonFromResponse (JSON_parse E)
                 (response_at E (length (requests w)) (config_model (branchConfigs name)))))
        # fst (branchPromises E names
            (push_output (Date_now E)
               (branch_output name (response_at E (length (requests w)) (config_model (branchConfigs name)))
                  (parseJsonFromResponse (JSON_parse E)
                     (response_at E (length (requests w)) (config_model (branchConfigs name))))) sp)
            (w\<lparr> requests := requests w @
               [\<lparr> req_model = config_model (branchConfigs name), max_tokens = 800, stream = False \<rparr>] \<rparr>)),
      snd (branchPromises E names
            (push_output (Date_now E)
               (branch_output name (response_at E (length (requests w)) (config_model (branchConfigs name)))
                  (parseJsonFromResponse (JSON_parse E)
                     (response_at E (length (requests w)) (config_model (branchConfigs name))))) sp)
            (w\<lparr> requests := requests w @
               [\<lparr> req_model = config_model (branchConfigs name), max_tokens = 800, stream = False \<rparr>] \<rparr>)))"
  using assms by (simp add: callModel_with_response Let_def case_prod_beta)

lemma branchPromises_requests:
  "\<exists>ext. requests (snd (snd (branchPromises E names sp w))) = requests w @ ext"
proof (induction names arbitrary: sp w)
  case Nil
  show ?case by simp
next
  case (Cons name names)
  show ?case
  proof (cases "branchConfigs name = Undefined")
    case True
    then show ?thesis using Cons.IH [of sp w] by (simp add: case_prod_beta)
  next
    case False
    let ?m = "config_model (branchConfigs name)"
    let ?out = "branch_output name (response_at E (length (requests w)) ?m)
        (parseJsonFromResponse (JSON_parse E) (response_at E (length (requests w)) ?m))"
    let ?w1 = "w\<lparr> requests := requests w @ [\<lparr> req_model = ?m, max_tokens = 800, stream = False \<rparr>] \<rparr>"
    obtain ext where "requests (snd (snd (branchPromises E names (push_output (Date_now E) ?out sp) ?w1)))
        = requests ?w1 @ ext"
      using Cons.IH [of "push_output (Date_now E) ?out sp" ?w1] by blast
    then have "requests (snd (snd (branchPromises E (name # names) sp w)))
        = requests w @ (\<lparr> req_model = ?m, max_tokens = 800, stream = False \<rparr> # ext)"
      unfolding branchPromises_known [OF False] by simp
    then show ?thesis by blast
  qed
qed


lemma stageB_requests:
  "\<exists>ext. requests (snd (snd (stageB_DendriticBranches E bud sp w))) = requests w @ ext"
  using branchPromises_requests [of E "branches bud" sp "logSection ''STAGE B: Dendritic Branch Network'' w"]
  by (simp add: stageB_DendriticBranches_def Let_def case_prod_beta logSection_def)



















end
